theory Spec2Isabelle
  imports Main "HOL-Library.Word" "HOL-Library.Multiset"
begin

section \<open>crypto.ts: the libsodium wrapper\<close>

text \<open>
  A \<^verbatim>\<open>Uint8Array\<close> is a list of bytes. Every \<^verbatim>\<open>throw new Error(msg)\<close> of the source is the
  value \<open>Inl (Error msg)\<close>; a function that can throw returns \<open>error + 'a\<close>.
\<close>

type_synonym byte = "8 word"
type_synonym bytes = "byte list"

datatype error = Error string

text \<open>
  The libsodium module is not part of the repository. Its deterministic members are the
  fields of the record below. \<^verbatim>\<open>src/types/libsodium.d.ts\<close> declares
  \<^verbatim>\<open>crypto_secretbox_open_easy\<close> as returning \<^verbatim>\<open>Uint8Array | null\<close>; the package the
  repository builds against, libsodium-wrappers-sumo, throws instead when the tag does not
  verify (\<^verbatim>\<open>wrong secret key for the given ciphertext\<close>), and its \<^verbatim>\<open>from_base64\<close> throws on
  text that is not base64 (\<^verbatim>\<open>invalid input\<close>). So opening answers with a throw, with
  \<^verbatim>\<open>null\<close> or with the message, and decoding with a throw or with the bytes.
  \<^verbatim>\<open>crypto_secretbox_easy\<close> throws on a key or a nonce of the wrong size. The
  two random members (\<^verbatim>\<open>crypto_secretbox_keygen\<close>, \<^verbatim>\<open>randombytes_buf\<close>) are effects: the bytes
  they return are an argument of the function that calls them.
\<close>

record sodium =
  crypto_secretbox_KEYBYTES :: nat
  crypto_secretbox_NONCEBYTES :: nat
  crypto_secretbox_easy :: "bytes \<Rightarrow> bytes \<Rightarrow> bytes \<Rightarrow> error + bytes"
  crypto_secretbox_open_easy :: "bytes \<Rightarrow> bytes \<Rightarrow> bytes \<Rightarrow> error + bytes option"
  crypto_generichash :: "nat \<Rightarrow> bytes \<Rightarrow> bytes"
  to_base64 :: "bytes \<Rightarrow> string"
  from_base64 :: "string \<Rightarrow> error + bytes"
  to_hex :: "bytes \<Rightarrow> string"

record encrypted_document =
  ed_ciphertext :: string
  ed_nonce :: string
  ed_algorithm :: string

record encrypted_key_share =
  ks_wallet :: string
  ks_encryptedKey :: string
  ks_nonce :: string

text \<open>
  \<open>sodiumReady\<close> is the module variable set by \<^verbatim>\<open>initCrypto\<close>; \<open>rnd\<close> is what
  \<^verbatim>\<open>randombytes_buf(crypto_secretbox_NONCEBYTES)\<close> returned in this call.
\<close>

definition encryptDocument ::
  "bool \<Rightarrow> sodium \<Rightarrow> bytes \<Rightarrow> bytes \<Rightarrow> bytes \<Rightarrow> error + encrypted_document" where
  "encryptDocument sodiumReady S rnd content documentKey =
     (if \<not> sodiumReady then Inl (Error ''Crypto not initialized'')
      else
        let nonce = rnd in
        case crypto_secretbox_easy S content nonce documentKey of
          Inl err \<Rightarrow> Inl err
        | Inr ciphertext \<Rightarrow>
            Inr \<lparr>ed_ciphertext = to_base64 S ciphertext,
                 ed_nonce = to_base64 S nonce,
                 ed_algorithm = ''xchacha20-poly1305''\<rparr>)"

text \<open>
  The three library calls that \<open>decryptDocument\<close> and \<open>decryptKeyShare\<close> make in this order:
  decode the ciphertext, decode the nonce, open the box. A throw of any of them leaves the
  wrapper as it is.
\<close>

definition secretbox_open_base64 ::
  "sodium \<Rightarrow> string \<Rightarrow> string \<Rightarrow> bytes \<Rightarrow> error + bytes option" where
  "secretbox_open_base64 S ciphertext64 nonce64 key =
     (case from_base64 S ciphertext64 of
        Inl err \<Rightarrow> Inl err
      | Inr ciphertext \<Rightarrow>
          (case from_base64 S nonce64 of
             Inl err \<Rightarrow> Inl err
           | Inr nonce \<Rightarrow> crypto_secretbox_open_easy S ciphertext nonce key))"

definition decryptDocument ::
  "bool \<Rightarrow> sodium \<Rightarrow> encrypted_document \<Rightarrow> bytes \<Rightarrow> error + bytes" where
  "decryptDocument sodiumReady S encrypted documentKey =
     (if \<not> sodiumReady then Inl (Error ''Crypto not initialized'')
      else
        case secretbox_open_base64 S (ed_ciphertext encrypted) (ed_nonce encrypted)
               documentKey of
          Inl err \<Rightarrow> Inl err
        | Inr None \<Rightarrow> Inl (Error ''Decryption failed - invalid key or corrupted data'')
        | Inr (Some plaintext) \<Rightarrow> Inr plaintext)"

definition deriveKeyFromSignature :: "bool \<Rightarrow> sodium \<Rightarrow> bytes \<Rightarrow> error + bytes" where
  "deriveKeyFromSignature sodiumReady S signature =
     (if \<not> sodiumReady then Inl (Error ''Crypto not initialized'')
      else Inr (crypto_generichash S (crypto_secretbox_KEYBYTES S) signature))"

definition encryptKeyForCollaborator ::
  "bool \<Rightarrow> sodium \<Rightarrow> bytes \<Rightarrow> bytes \<Rightarrow> bytes \<Rightarrow> string \<Rightarrow> error + encrypted_key_share" where
  "encryptKeyForCollaborator sodiumReady S rnd documentKey collaboratorDerivedKey collaboratorWallet =
     (if \<not> sodiumReady then Inl (Error ''Crypto not initialized'')
      else
        let nonce = rnd in
        case crypto_secretbox_easy S documentKey nonce collaboratorDerivedKey of
          Inl err \<Rightarrow> Inl err
        | Inr encryptedKey \<Rightarrow>
            Inr \<lparr>ks_wallet = collaboratorWallet,
                 ks_encryptedKey = to_base64 S encryptedKey,
                 ks_nonce = to_base64 S nonce\<rparr>)"

definition decryptKeyShare ::
  "bool \<Rightarrow> sodium \<Rightarrow> encrypted_key_share \<Rightarrow> bytes \<Rightarrow> error + bytes" where
  "decryptKeyShare sodiumReady S share derivedKey =
     (if \<not> sodiumReady then Inl (Error ''Crypto not initialized'')
      else
        case secretbox_open_base64 S (ks_encryptedKey share) (ks_nonce share) derivedKey of
          Inl err \<Rightarrow> Inl err
        | Inr None \<Rightarrow> Inl (Error ''Failed to decrypt key share - invalid credentials'')
        | Inr (Some documentKey) \<Rightarrow> Inr documentKey)"

definition generateDocumentKey :: "bool \<Rightarrow> bytes \<Rightarrow> error + bytes" where
  "generateDocumentKey sodiumReady keygen =
     (if \<not> sodiumReady then Inl (Error ''Crypto not initialized. Call initCrypto() first.'')
      else Inr keygen)"

subsection \<open>What the source relies on from libsodium\<close>

text \<open>
  The contract of the library, as far as the round trips depend on it: base64 decoding
  inverts encoding, sealing under a key and a nonce of the right sizes returns a box, and
  opening that box under the same key and nonce returns the message. The sizes of
  libsodium's secretbox are keys of 32 bytes, nonces of 24 bytes and a box 16 bytes (the
  tag) longer than its message.
\<close>

definition base64_inverse :: "sodium \<Rightarrow> bool" where
  "base64_inverse S \<longleftrightarrow> (\<forall>b. from_base64 S (to_base64 S b) = Inr b)"

definition secretbox_opens :: "sodium \<Rightarrow> bool" where
  "secretbox_opens S \<longleftrightarrow>
     (\<forall>m n k. length n = crypto_secretbox_NONCEBYTES S \<longrightarrow>
              length k = crypto_secretbox_KEYBYTES S \<longrightarrow>
              (\<exists>c. crypto_secretbox_easy S m n k = Inr c \<and>
                   crypto_secretbox_open_easy S c n k = Inr (Some m)))"

definition libsodium_sizes :: "sodium \<Rightarrow> bool" where
  "libsodium_sizes S \<longleftrightarrow>
     crypto_secretbox_KEYBYTES S = 32 \<and> crypto_secretbox_NONCEBYTES S = 24 \<and>
     (\<forall>m n k c. crypto_secretbox_easy S m n k = Inr c \<longrightarrow> length c = 16 + length m)"

text \<open>
  The second half of the wrap and unwrap property as the specification words it: unwrapping
  under any other master key fails.
\<close>

definition other_keys_fail :: "sodium \<Rightarrow> bool" where
  "other_keys_fail S \<longleftrightarrow>
     (\<forall>D M M' n w sh.
        length M = crypto_secretbox_KEYBYTES S \<longrightarrow>
        length M' = crypto_secretbox_KEYBYTES S \<longrightarrow>
        length n = crypto_secretbox_NONCEBYTES S \<longrightarrow>
        M' \<noteq> M \<longrightarrow>
        encryptKeyForCollaborator True S n D M w = Inr sh \<longrightarrow>
        isl (decryptKeyShare True S sh M'))"

text \<open>
  A small instance of the interface with libsodium's sizes, used to run the definitions on
  concrete inputs: the tag is the first half of the key, sealing and opening throw on a key
  or nonce of another size, opening under a key with another first half throws as the
  library does, the hash repeats the sum of the bytes, and base64
  is replaced by the byte-to-character bijection.
\<close>

definition model_easy :: "bytes \<Rightarrow> bytes \<Rightarrow> bytes \<Rightarrow> error + bytes" where
  "model_easy m n k =
     (if length k \<noteq> 32 then Inl (Error ''invalid key length'')
      else if length n \<noteq> 24 then Inl (Error ''invalid nonce length'')
      else Inr (take 16 k @ m))"

definition model_open_easy :: "bytes \<Rightarrow> bytes \<Rightarrow> bytes \<Rightarrow> error + bytes option" where
  "model_open_easy c n k =
     (if length k \<noteq> 32 then Inl (Error ''invalid key length'')
      else if length n \<noteq> 24 then Inl (Error ''invalid nonce length'')
      else if 16 \<le> length c \<and> take 16 c = take 16 k then Inr (Some (drop 16 c))
      else Inl (Error ''wrong secret key for the given ciphertext''))"

definition model_to_base64 :: "bytes \<Rightarrow> string" where
  "model_to_base64 b = map (\<lambda>w. char_of (unat w)) b"

definition model_from_base64 :: "string \<Rightarrow> error + bytes" where
  "model_from_base64 s = Inr (map (\<lambda>c. of_nat (of_char c :: nat)) s)"

definition model_sodium :: sodium where
  "model_sodium =
     \<lparr>crypto_secretbox_KEYBYTES = 32,
      crypto_secretbox_NONCEBYTES = 24,
      crypto_secretbox_easy = model_easy,
      crypto_secretbox_open_easy = model_open_easy,
      crypto_generichash = (\<lambda>n b. replicate n (sum_list b)),
      to_base64 = model_to_base64,
      from_base64 = model_from_base64,
      to_hex = model_to_base64\<rparr>"

text \<open>
  The same instance with the opening that \<^verbatim>\<open>src/types/libsodium.d.ts\<close> declares: \<^verbatim>\<open>null\<close>
  where the package throws on the tag.
\<close>

definition declared_sodium :: sodium where
  "declared_sodium =
     model_sodium
       \<lparr>crypto_secretbox_open_easy :=
          (\<lambda>c n k. if model_open_easy c n k =
                         Inl (Error ''wrong secret key for the given ciphertext'')
                     then Inr None else model_open_easy c n k)\<rparr>"

section \<open>paper.ts: manifest parsing\<close>

text \<open>
  The value \<^verbatim>\<open>JSON.parse\<close> returns. An object lists its own properties, each key once.
  \<^verbatim>\<open>JSON.parse\<close> itself is the built-in of the language: it is the argument \<open>JSON_parse\<close>,
  and it throws (a \<^verbatim>\<open>SyntaxError\<close>) on text that is not JSON.
\<close>

datatype json =
  JNull
  | JBool bool
  | JNumber int
  | JString string
  | JArray "json list"
  | JObject "(string \<times> json) list"

text \<open>
  Reading the property \<^verbatim>\<open>.type\<close>: on \<^verbatim>\<open>null\<close> it throws a \<^verbatim>\<open>TypeError\<close>; on an object it
  is the property, or \<^verbatim>\<open>undefined\<close> (here \<open>None\<close>) when absent; on a boolean, number, string
  or array it is \<^verbatim>\<open>undefined\<close>.
\<close>

fun get_type :: "json \<Rightarrow> error + json option" where
  "get_type JNull = Inl (Error ''Cannot read properties of null'')"
| "get_type (JObject props) = Inr (map_of props ''type'')"
| "get_type _ = Inr None"

text \<open>The body of the \<^verbatim>\<open>try\<close> block, then the function with its \<^verbatim>\<open>catch\<close>.\<close>

definition parseEncryptedDraftManifest_try ::
  "(string \<Rightarrow> error + json) \<Rightarrow> string \<Rightarrow> error + json option" where
  "parseEncryptedDraftManifest_try JSON_parse data =
     (case JSON_parse data of
        Inl e \<Rightarrow> Inl e
      | Inr manifest \<Rightarrow>
          (case get_type manifest of
             Inl e \<Rightarrow> Inl e
           | Inr t \<Rightarrow>
               if t \<noteq> Some (JString ''encrypted_draft'') then Inr None
               else Inr (Some manifest)))"

definition parseEncryptedDraftManifest ::
  "(string \<Rightarrow> error + json) \<Rightarrow> string \<Rightarrow> error + json option" where
  "parseEncryptedDraftManifest JSON_parse data =
     (case parseEncryptedDraftManifest_try JSON_parse data of
        Inl e \<Rightarrow> Inr None
      | Inr r \<Rightarrow> Inr r)"

text \<open>A fragment of \<^verbatim>\<open>JSON.parse\<close> on three texts, to run the parser on.\<close>

definition manifest_text :: string where
  "manifest_text =
     ''{\"type\":\"encrypted_draft\",\"encrypted\":{\"ciphertext\":\"xxxxxxxxxxxxxxxxx\",\"nonce\":\"yyyyyyyyyyyyyyyyyyyyyyyy\"}}''"

definition model_JSON_parse :: "string \<Rightarrow> error + json" where
  "model_JSON_parse s =
     (if s = ''null'' then Inr JNull
      else if s = manifest_text
        then Inr (JObject [(''type'', JString ''encrypted_draft''),
                           (''encrypted'',
                            JObject [(''ciphertext'', JString ''xxxxxxxxxxxxxxxxx''),
                                     (''nonce'', JString ''yyyyyyyyyyyyyyyyyyyyyyyy'')])])
      else if s = ''{\"type\":\"research_paper\"}''
        then Inr (JObject [(''type'', JString ''research_paper'')])
      else Inl (Error ''SyntaxError''))"

section \<open>drafts.ts: data\<close>

text \<open>
  The records of paper.ts. Field names carry a prefix where two interfaces share a name.
  \<^verbatim>\<open>DocumentStatus\<close> is \<^verbatim>\<open>'draft' | 'shared' | 'published'\<close>; the status the specification calls
  private is \<^verbatim>\<open>'draft'\<close>. Version numbers are JavaScript numbers (doubles) holding integers,
  times are milliseconds.
\<close>

datatype document_status = Draft | Shared | Published

record collaborator =
  c_wallet :: string
  c_name :: string
  c_keyShare :: encrypted_key_share
  c_addedAt :: nat
  c_addedBy :: string
  c_documentKeyBase64 :: "string option"

record draft_version =
  v_version :: int
  v_actionId :: string
  v_createdAt :: nat
  v_createdBy :: string
  v_message :: "string option"

record draft =
  draftId :: string
  title :: string
  status :: document_status
  ownerEncryptedKey :: string
  ownerKeyNonce :: string
  owner :: string
  collaborators :: "collaborator list"
  versions :: "draft_version list"
  createdAt :: nat
  updatedAt :: nat

record author =
  a_name :: string
  a_wallet :: "string option"
  a_affiliation :: "string option"
  a_orcid :: "string option"

record manifest_metadata =
  m_title :: string
  m_abstract :: string
  m_authors :: "author list"
  m_keywords :: "string list"
  m_citations :: "string list"
  m_draftId :: string
  m_version :: int
  m_createdBy :: string
  m_createdAt :: nat

record encrypted_draft_manifest =
  em_version :: int
  em_type :: string
  em_metadata :: manifest_metadata
  em_encrypted :: encrypted_document

record collaboration_invitation =
  i_version :: int
  i_type :: string
  i_draftId :: string
  i_draftTitle :: string
  i_owner :: string
  i_ownerName :: "string option"
  i_invitedWallet :: string
  i_keyShare :: encrypted_key_share
  i_latestVersion :: int
  i_latestActionId :: string
  i_createdAt :: nat
  i_invitedBy :: string

text \<open>
  What is handed to \<^verbatim>\<open>Cascade.uploader.uploadFile\<close>: the bytes are always
  \<^verbatim>\<open>TextEncoder().encode(JSON.stringify(x))\<close> of a manifest or an invitation, kept here as
  the value \<open>x\<close> itself; \<^verbatim>\<open>taskOptions\<close> is a constant and left out.
\<close>

datatype file_content =
  ManifestFile encrypted_draft_manifest
  | InvitationFile collaboration_invitation

record upload_request =
  u_content :: file_content
  u_fileName :: string
  u_isPublic :: bool
  u_expirationTime :: string

record upload_result =
  r_action_id :: "string option"
  r_taskId :: "string option"
  r_actionId :: "string option"

record lumescope_action =
  la_id :: string
  la_type :: string
  la_creator :: string
  la_state :: string
  la_file_name :: "string option"

text \<open>
  A promise of the key derivation is pending, fulfilled with the key, or rejected. The
  state holds the module variables of drafts.ts, wallet.ts, crypto.ts and cascade.ts, the
  array stored in \<^verbatim>\<open>localStorage\<close> under \<^verbatim>\<open>DRAFTS_STORAGE_KEY\<close> (as the array
  \<^verbatim>\<open>getAllDrafts\<close> parses from it), the promises created so far, the number of calls of
  \<^verbatim>\<open>signMessage\<close>, and the files the blob store has accepted.
\<close>

datatype promise = Pending | Fulfilled bytes | Rejected error

record state =
  localStorage_drafts :: "draft list"
  connectedAddress :: "string option"
  sodiumReady :: bool
  lumeraClient :: bool
  cachedDerivedKey :: "bytes option"
  keyDerivationPromise :: "nat option"
  promises :: "nat \<Rightarrow> promise"
  promise_count :: nat
  signMessage_calls :: nat
  cascade_files :: "upload_request list"

text \<open>
  What the outside answers during one operation: the random bytes, the wallet's answer to
  \<^verbatim>\<open>signMessage\<close>, the clock at the successive calls of \<^verbatim>\<open>Date.now()\<close>, the blob store's
  answer to an upload and to a download (the downloaded stream decoded to text), the
  indexer's answers (\<open>creator_items\<close> is the \<^verbatim>\<open>items\<close> array of the query by creator, before
  \<open>getActionsByCreator\<close> filters it; \<open>all_actions\<close> is what \<open>getAllActions\<close> returns, which
  catches every failure and returns the empty array), and the built-ins: \<^verbatim>\<open>JSON.parse\<close>, the
  match of the regular expression \<^verbatim>\<open>/draft_([^_]+)_v(\d+)\.json/\<close> (group 1 and \<^verbatim>\<open>parseInt\<close> of
  group 2), \<^verbatim>\<open>TextEncoder\<close> and \<^verbatim>\<open>TextDecoder\<close>. A downloaded invitation is taken to parse to a
  record with all fields of \<^verbatim>\<open>CollaborationInvitation\<close>.
\<close>

record env =
  keygen_bytes :: bytes
  random_bytes :: "nat \<Rightarrow> bytes"
  sign_result :: "error + bytes"
  clock :: "nat \<Rightarrow> nat"
  upload_answer :: "upload_request \<Rightarrow> error + upload_result"
  download_text :: "string \<Rightarrow> error + string"
  download_invitation :: "string \<Rightarrow> error + collaboration_invitation"
  creator_items :: "error + lumescope_action list"
  all_actions :: "nat \<Rightarrow> lumescope_action list"
  json_parse :: "string \<Rightarrow> error + json"
  regex_match :: "string \<Rightarrow> (string \<times> int) option"
  utf8_encode :: "string \<Rightarrow> bytes"
  utf8_decode :: "bytes \<Rightarrow> string"





function show_nat :: "nat \<Rightarrow> string" where
  "show_nat n =
     (if n < 10 then [char_of (48 + n)]
      else show_nat (n div 10) @ [char_of (48 + n mod 10)])"
  by pat_completeness auto
termination
  by (relation "measure id") auto

declare show_nat.simps [simp del]

definition Number_toString :: "int \<Rightarrow> string" where
  "Number_toString i =
     (if i < 0 then CHR ''-'' # show_nat (nat (- i)) else show_nat (nat i))"

text \<open>\<^verbatim>\<open>a || b\<close> on optional strings: the empty string is falsy, like \<^verbatim>\<open>undefined\<close>.\<close>

definition truthy :: "string option \<Rightarrow> bool" where
  "truthy x \<longleftrightarrow> x \<noteq> None \<and> x \<noteq> Some []"

subsection \<open>Local storage\<close>

definition getDraft :: "string \<Rightarrow> draft list \<Rightarrow> draft option" where
  "getDraft did drafts = find (\<lambda>d. draftId d = did) drafts"

fun findIndex :: "('a \<Rightarrow> bool) \<Rightarrow> 'a list \<Rightarrow> nat option" where
  "findIndex P [] = None"
| "findIndex P (x # xs) =
     (if P x then Some 0 else map_option Suc (findIndex P xs))"

definition saveDraft :: "draft \<Rightarrow> draft list \<Rightarrow> draft list" where
  "saveDraft d drafts =
     (case findIndex (\<lambda>x. draftId x = draftId d) drafts of
        Some index \<Rightarrow> drafts[index := d]
      | None \<Rightarrow> drafts @ [d])"


subsection \<open>Key derivation\<close>

text \<open>
  \<open>getOrDeriveDerivedKey\<close> runs to its first suspension without interruption. It returns
  either the cached key or the derivation promise; when it starts a derivation, the inner
  function has called \<^verbatim>\<open>signMessage\<close> and is suspended at its \<^verbatim>\<open>await\<close>, and the promise of
  that inner function is stored in \<open>keyDerivationPromise\<close>.
\<close>

datatype returned = Value bytes | Awaits nat

definition getOrDeriveDerivedKey_call :: "state \<Rightarrow> returned \<times> state" where
  "getOrDeriveDerivedKey_call s =
     (case cachedDerivedKey s of
        Some key \<Rightarrow> (Value key, s)
      | None \<Rightarrow>
          (case keyDerivationPromise s of
             Some p \<Rightarrow> (Awaits p, s)
           | None \<Rightarrow>
               let p = promise_count s
               in (Awaits p,
                   s\<lparr>promise_count := p + 1,
                     promises := (promises s)(p := Pending),
                     signMessage_calls := signMessage_calls s + 1,
                     keyDerivationPromise := Some p\<rparr>)))"

text \<open>
  The wallet answers the signature request of the pending derivation \<open>p\<close>: the inner function
  resumes. A rejected signature, or a throw of \<open>deriveKeyFromSignature\<close>, rejects the promise
  and leaves the two module variables as they are; otherwise the key is cached, the
  variable \<open>keyDerivationPromise\<close> is cleared and the promise is fulfilled with the key.
\<close>

definition derivation_outcome :: "sodium \<Rightarrow> bool \<Rightarrow> error + bytes \<Rightarrow> error + bytes" where
  "derivation_outcome S ready answer =
     (case answer of
        Inl e \<Rightarrow> Inl e
      | Inr signature \<Rightarrow> deriveKeyFromSignature ready S signature)"

definition signMessage_settles :: "sodium \<Rightarrow> nat \<Rightarrow> error + bytes \<Rightarrow> state \<Rightarrow> state" where
  "signMessage_settles S p answer s =
     (case derivation_outcome S (sodiumReady s) answer of
        Inl e \<Rightarrow> s\<lparr>promises := (promises s)(p := Rejected e)\<rparr>
      | Inr key \<Rightarrow>
          s\<lparr>cachedDerivedKey := Some key,
            keyDerivationPromise := None,
            promises := (promises s)(p := Fulfilled key)\<rparr>)"


text \<open>\<open>n\<close> calls in a row, none of them resumed: what each caller got, and the state after.\<close>

fun concurrent_calls :: "nat \<Rightarrow> state \<Rightarrow> returned list \<times> state" where
  "concurrent_calls 0 s = ([], s)"
| "concurrent_calls (Suc n) s =
     (let (r, s') = getOrDeriveDerivedKey_call s;
          (rs, s'') = concurrent_calls n s'
      in (r # rs, s''))"

text \<open>What a caller holding \<open>r\<close> has received in state \<open>s\<close>, if anything yet.\<close>

fun received :: "state \<Rightarrow> returned \<Rightarrow> (error + bytes) option" where
  "received s (Value key) = Some (Inr key)"
| "received s (Awaits p) =
     (case promises s p of
        Pending \<Rightarrow> None
      | Fulfilled key \<Rightarrow> Some (Inr key)
      | Rejected e \<Rightarrow> Some (Inl e))"

text \<open>
  \<^verbatim>\<open>await getOrDeriveDerivedKey()\<close> inside an operation that runs alone: the call, then the
  wallet's answer if the promise is still pending.
\<close>

definition getOrDeriveDerivedKey :: "sodium \<Rightarrow> env \<Rightarrow> state \<Rightarrow> (error + bytes) \<times> state" where
  "getOrDeriveDerivedKey S e s =
     (case getOrDeriveDerivedKey_call s of
        (Value key, s') \<Rightarrow> (Inr key, s')
      | (Awaits p, s') \<Rightarrow>
          (case promises s' p of
             Fulfilled key \<Rightarrow> (Inr key, s')
           | Rejected err \<Rightarrow> (Inl err, s')
           | Pending \<Rightarrow>
               (derivation_outcome S (sodiumReady s') (sign_result e),
                signMessage_settles S p (sign_result e) s')))"

subsection \<open>Reading a draft\<close>

definition NO_KEY_SHARE :: string where
  "NO_KEY_SHARE = ''NO_KEY_SHARE: You need to use the invitation link to access this draft. Please ask the draft owner to send you the secure link.''"

definition getDocumentKey :: "sodium \<Rightarrow> env \<Rightarrow> draft \<Rightarrow> state \<Rightarrow> (error + bytes) \<times> state" where
  "getDocumentKey S e d s =
     (if \<not> truthy (connectedAddress s) then (Inl (Error ''Not connected''), s)
      else
        let wallet = the (connectedAddress s) in
        case getOrDeriveDerivedKey S e s of
          (Inl err, s') \<Rightarrow> (Inl err, s')
        | (Inr derivedKey, s') \<Rightarrow>
            if owner d = wallet then
              (decryptKeyShare (sodiumReady s') S
                 \<lparr>ks_wallet = wallet, ks_encryptedKey = ownerEncryptedKey d,
                  ks_nonce = ownerKeyNonce d\<rparr> derivedKey, s')
            else
              (case find (\<lambda>c. c_wallet c = wallet) (collaborators d) of
                 Some c \<Rightarrow>
                   if ks_encryptedKey (c_keyShare c) = [] \<or> ks_nonce (c_keyShare c) = []
                   then (Inl (Error NO_KEY_SHARE), s')
                   else (decryptKeyShare (sodiumReady s') S (c_keyShare c) derivedKey, s')
               | None \<Rightarrow> (Inl (Error ''No access to this draft''), s')))"

text \<open>
  \<^verbatim>\<open>draft.versions[versionIndex]\<close>, or the last element when no index is given; an index
  outside the array gives \<^verbatim>\<open>undefined\<close>.
\<close>

definition version_at :: "draft_version list \<Rightarrow> int option \<Rightarrow> draft_version option" where
  "version_at vs versionIndex =
     (case versionIndex of
        Some i \<Rightarrow> if 0 \<le> i \<and> i < int (length vs) then Some (vs ! nat i) else None
      | None \<Rightarrow> if vs = [] then None else Some (last vs))"

text \<open>
  \<^verbatim>\<open>manifest.encrypted\<close> of a parsed manifest, as \<open>decryptDocument\<close> reads it: the two base64
  fields have to be strings, anything else makes the library throw a \<^verbatim>\<open>TypeError\<close>. The
  fields are read inside \<open>decryptDocument\<close>, after its test of \<open>sodiumReady\<close>, which is why
  \<open>loadDraftContent\<close> below makes that test before it reads them.
\<close>

fun get_prop :: "string \<Rightarrow> json \<Rightarrow> json option" where
  "get_prop name (JObject props) = map_of props name"
| "get_prop name _ = None"

definition string_prop :: "string \<Rightarrow> json \<Rightarrow> string" where
  "string_prop name j = (case get_prop name j of Some (JString s) \<Rightarrow> s | _ \<Rightarrow> [])"

definition manifest_encrypted :: "json \<Rightarrow> error + encrypted_document" where
  "manifest_encrypted manifest =
     (case get_prop ''encrypted'' manifest of
        Some enc \<Rightarrow>
          (case (get_prop ''ciphertext'' enc, get_prop ''nonce'' enc) of
             (Some (JString c), Some (JString n)) \<Rightarrow>
               Inr \<lparr>ed_ciphertext = c, ed_nonce = n,
                    ed_algorithm = string_prop ''algorithm'' enc\<rparr>
           | _ \<Rightarrow> Inl (Error ''TypeError''))
      | None \<Rightarrow> Inl (Error ''TypeError''))"

definition loadDraftContent ::
  "sodium \<Rightarrow> env \<Rightarrow> string \<Rightarrow> int option \<Rightarrow> state \<Rightarrow> (error + string \<times> draft_version) \<times> state" where
  "loadDraftContent S e did versionIndex s =
     (if \<not> lumeraClient s then (Inl (Error ''Cascade client not initialized''), s)
      else case getDraft did (localStorage_drafts s) of
        None \<Rightarrow> (Inl (Error ''Draft not found''), s)
      | Some d \<Rightarrow>
          (case version_at (versions d) versionIndex of
             None \<Rightarrow> (Inl (Error ''Version not found''), s)
           | Some version \<Rightarrow>
               (case download_text e (v_actionId version) of
                  Inl err \<Rightarrow> (Inl err, s)
                | Inr manifestJson \<Rightarrow>
                    (case parseEncryptedDraftManifest (json_parse e) manifestJson of
                       Inl err \<Rightarrow> (Inl err, s)
                     | Inr None \<Rightarrow> (Inl (Error ''Invalid draft data''), s)
                     | Inr (Some manifest) \<Rightarrow>
                         (case getDocumentKey S e d s of
                            (Inl err, s') \<Rightarrow> (Inl err, s')
                          | (Inr documentKey, s') \<Rightarrow>
                              if \<not> sodiumReady s' then (Inl (Error ''Crypto not initialized''), s')
                              else
                                (case manifest_encrypted manifest of
                                   Inl err \<Rightarrow> (Inl err, s')
                                 | Inr encrypted \<Rightarrow>
                                     (case decryptDocument (sodiumReady s') S encrypted documentKey of
                                        Inl err \<Rightarrow> (Inl err, s')
                                      | Inr decryptedBytes \<Rightarrow>
                                          (Inr (utf8_decode e decryptedBytes, version), s'))))))))"

subsection \<open>Creating a draft and saving a version\<close>

record create_metadata =
  cm_abstract :: "string option"
  cm_authors :: "author list option"
  cm_keywords :: "string list option"
  cm_citations :: "string list option"

definition generateDraftId :: "sodium \<Rightarrow> bytes \<Rightarrow> string" where
  "generateDraftId S rnd = to_hex S rnd"

text \<open>\<^verbatim>\<open>Math.floor(Date.now() / 1000) + 90000 * 30\<close>, printed.\<close>

definition expirationTime :: "nat \<Rightarrow> string" where
  "expirationTime now = Number_toString (int (now div 1000 + 90000 * 30))"

text \<open>\<^verbatim>\<open>uploadResult.action_id || uploadResult.taskId || `draft-${Date.now()}`\<close>\<close>

definition upload_actionId :: "upload_result \<Rightarrow> nat \<Rightarrow> string" where
  "upload_actionId uploadResult now =
     (if truthy (r_action_id uploadResult) then the (r_action_id uploadResult)
      else if truthy (r_taskId uploadResult) then the (r_taskId uploadResult)
      else ''draft-'' @ Number_toString (int now))"

definition draft_file_name :: "string \<Rightarrow> int \<Rightarrow> string" where
  "draft_file_name did n = ''draft_'' @ did @ ''_v'' @ Number_toString n @ ''.json''"

text \<open>
  \<open>createDraft\<close>. The random bytes are, in the order of the calls, the nonce of the content,
  the nonce of the owner's key share and the eight bytes of the draft id. A rejected upload
  throws out of the function; an upload that resolves adds the file to the blob store.
  Here and below the progress callback and the console output are left out, and an
  operation runs from its call to its return without another one in between.
\<close>

definition createDraft ::
  "sodium \<Rightarrow> env \<Rightarrow> string \<Rightarrow> string \<Rightarrow> create_metadata \<Rightarrow> state \<Rightarrow> (error + draft) \<times> state" where
  "createDraft S e ttl content metadata s =
     (if \<not> lumeraClient s then (Inl (Error ''Cascade client not initialized''), s)
      else if \<not> truthy (connectedAddress s) then (Inl (Error ''Not connected''), s)
      else
        let own = the (connectedAddress s) in
        case generateDocumentKey (sodiumReady s) (keygen_bytes e) of
          Inl err \<Rightarrow> (Inl err, s)
        | Inr documentKey \<Rightarrow>
        (case encryptDocument (sodiumReady s) S (random_bytes e 0)
                (utf8_encode e content) documentKey of
          Inl err \<Rightarrow> (Inl err, s)
        | Inr encrypted \<Rightarrow>
        (case getOrDeriveDerivedKey S e s of
          (Inl err, s1) \<Rightarrow> (Inl err, s1)
        | (Inr derivedKey, s1) \<Rightarrow>
        (case encryptKeyForCollaborator (sodiumReady s1) S (random_bytes e 1)
                documentKey derivedKey own of
          Inl err \<Rightarrow> (Inl err, s1)
        | Inr ownerKeyShare \<Rightarrow>
            let did = generateDraftId S (random_bytes e 2);
                manifest =
                  \<lparr>em_version = 1, em_type = ''encrypted_draft'',
                   em_metadata =
                     \<lparr>m_title = ttl,
                      m_abstract = (if truthy (cm_abstract metadata)
                                    then the (cm_abstract metadata) else []),
                      m_authors = (case cm_authors metadata of
                                     Some authors \<Rightarrow> authors
                                   | None \<Rightarrow> [\<lparr>a_name = own, a_wallet = Some own,
                                                a_affiliation = None, a_orcid = None\<rparr>]),
                      m_keywords = (case cm_keywords metadata of Some k \<Rightarrow> k | None \<Rightarrow> []),
                      m_citations = (case cm_citations metadata of Some c \<Rightarrow> c | None \<Rightarrow> []),
                      m_draftId = did, m_version = 1, m_createdBy = own,
                      m_createdAt = clock e 0\<rparr>,
                   em_encrypted = encrypted\<rparr>;
                request =
                  \<lparr>u_content = ManifestFile manifest,
                   u_fileName = draft_file_name did 1,
                   u_isPublic = True,
                   u_expirationTime = expirationTime (clock e 1)\<rparr>
            in case upload_answer e request of
                 Inl err \<Rightarrow> (Inl err, s1)
               | Inr uploadResult \<Rightarrow>
                   let s2 = s1\<lparr>cascade_files := cascade_files s1 @ [request]\<rparr>;
                       actionId = upload_actionId uploadResult (clock e 2);
                       now = clock e 3;
                       d = \<lparr>draftId = did, title = ttl, status = Draft,
                            ownerEncryptedKey = ks_encryptedKey ownerKeyShare,
                            ownerKeyNonce = ks_nonce ownerKeyShare,
                            owner = own, collaborators = [],
                            versions = [\<lparr>v_version = 1, v_actionId = actionId,
                                         v_createdAt = now, v_createdBy = own,
                                         v_message = Some ''Initial draft''\<rparr>],
                            createdAt = now, updatedAt = now\<rparr>
                   in (Inr d,
                       s2\<lparr>localStorage_drafts := saveDraft d (localStorage_drafts s2)\<rparr>)))))"





subsection \<open>Inviting a collaborator\<close>

definition invitation_file_name :: "string \<Rightarrow> string \<Rightarrow> string" where
  "invitation_file_name wallet did = ''invitation_'' @ wallet @ ''_'' @ did @ ''.json''"

definition uploadCollaborationInvitation ::
  "env \<Rightarrow> draft \<Rightarrow> collaborator \<Rightarrow> state \<Rightarrow> (error + string) \<times> state" where
  "uploadCollaborationInvitation e d c s =
     (if \<not> lumeraClient s then (Inl (Error ''Cascade client not initialized''), s)
      else if versions d = [] then (Inl (Error ''TypeError''), s)
      else
        let latestVersion = last (versions d);
            invitation =
              \<lparr>i_version = 1, i_type = ''draft_invitation'',
               i_draftId = draftId d, i_draftTitle = title d, i_owner = owner d,
               i_ownerName = Some (owner d),
               i_invitedWallet = c_wallet c,
               i_keyShare =
                 \<lparr>ks_wallet = c_wallet c,
                  ks_encryptedKey = ks_encryptedKey (c_keyShare c),
                  ks_nonce = ks_nonce (c_keyShare c)\<rparr>,
               i_latestVersion = v_version latestVersion,
               i_latestActionId = v_actionId latestVersion,
               i_createdAt = clock e 2,
               i_invitedBy = owner d\<rparr>;
            request =
              \<lparr>u_content = InvitationFile invitation,
               u_fileName = invitation_file_name (c_wallet c) (draftId d),
               u_isPublic = True,
               u_expirationTime = expirationTime (clock e 3)\<rparr>
        in case upload_answer e request of
             Inl err \<Rightarrow> (Inl err, s)
           | Inr uploadResult \<Rightarrow>
               (Inr (if truthy (r_taskId uploadResult) then the (r_taskId uploadResult)
                     else if truthy (r_actionId uploadResult) then the (r_actionId uploadResult)
                     else []),
                s\<lparr>cascade_files := cascade_files s @ [request]\<rparr>))"

record added_collaborator =
  ac_collaborator :: collaborator
  ac_invitationId :: "string option"
  ac_documentKeyBase64 :: string

text \<open>
  \<open>addCollaborator\<close>. The draft is saved before the invitation is uploaded; the \<^verbatim>\<open>catch\<close>
  around the upload leaves \<^verbatim>\<open>invitationId\<close> undefined.
\<close>

definition addCollaborator ::
  "sodium \<Rightarrow> env \<Rightarrow> string \<Rightarrow> string \<Rightarrow> string \<Rightarrow> state \<Rightarrow> (error + added_collaborator) \<times> state" where
  "addCollaborator S e did collaboratorWallet collaboratorName s =
     (case getDraft did (localStorage_drafts s) of
        None \<Rightarrow> (Inl (Error ''Draft not found''), s)
      | Some d \<Rightarrow>
        if \<not> truthy (connectedAddress s) then (Inl (Error ''Not connected''), s)
        else
          let own = the (connectedAddress s) in
          if owner d \<noteq> own then (Inl (Error ''Only owner can add collaborators''), s)
          else if list_ex (\<lambda>c. c_wallet c = collaboratorWallet) (collaborators d)
            then (Inl (Error ''Already a collaborator''), s)
          else
            case getDocumentKey S e d s of
              (Inl err, s1) \<Rightarrow> (Inl err, s1)
            | (Inr documentKey, s1) \<Rightarrow>
                let documentKeyBase64 = to_base64 S documentKey;
                    keyShare = \<lparr>ks_wallet = collaboratorWallet, ks_encryptedKey = [],
                                ks_nonce = []\<rparr>;
                    c = \<lparr>c_wallet = collaboratorWallet, c_name = collaboratorName,
                         c_keyShare = keyShare, c_addedAt = clock e 0, c_addedBy = own,
                         c_documentKeyBase64 = Some documentKeyBase64\<rparr>;
                    d' = d\<lparr>collaborators := collaborators d @ [c], status := Shared,
                           updatedAt := clock e 1\<rparr>;
                    s2 = s1\<lparr>localStorage_drafts := saveDraft d' (localStorage_drafts s1)\<rparr>
                in case uploadCollaborationInvitation e d' c s2 of
                     (Inl err, s3) \<Rightarrow>
                       (Inr \<lparr>ac_collaborator = c, ac_invitationId = None,
                             ac_documentKeyBase64 = documentKeyBase64\<rparr>, s3)
                   | (Inr invitationId, s3) \<Rightarrow>
                       (Inr \<lparr>ac_collaborator = c, ac_invitationId = Some invitationId,
                             ac_documentKeyBase64 = documentKeyBase64\<rparr>, s3))"

subsection \<open>Importing through a share link\<close>

record share_result =
  sr_success :: bool
  sr_message :: string

text \<open>\<^verbatim>\<open>action.decoded?.file_name || ''\<close>\<close>

definition file_name_of :: "lumescope_action \<Rightarrow> string" where
  "file_name_of action = (case la_file_name action of Some n \<Rightarrow> n | None \<Rightarrow> [])"

definition is_invitation_for :: "string \<Rightarrow> string \<Rightarrow> lumescope_action \<Rightarrow> bool" where
  "is_invitation_for wallet did action \<longleftrightarrow>
     la_type action = ''ACTION_TYPE_CASCADE'' \<and>
     la_state action = ''ACTION_STATE_DONE'' \<and>
     file_name_of action = invitation_file_name wallet did"

text \<open>
  \<open>getAllActions\<close> catches every failure of the query and returns the empty array, so the
  \<^verbatim>\<open>catch\<close> of \<open>verifyInvitationOnCascade\<close> has nothing left to catch. The argument of
  \<open>all_actions\<close> numbers the queries of one operation.
\<close>

definition verifyInvitationOnCascade :: "env \<Rightarrow> string \<Rightarrow> string \<Rightarrow> bool" where
  "verifyInvitationOnCascade e did wallet =
     (case find (is_invitation_for wallet did) (all_actions e 0) of
        Some invitation \<Rightarrow> True
      | None \<Rightarrow> False)"

text \<open>
  \<open>importDraftFromCascade\<close>: every throw inside is caught and turns into \<^verbatim>\<open>false\<close>; a key
  derivation started before the throw keeps its effect on the state.
\<close>

definition importDraftFromCascade ::
  "sodium \<Rightarrow> env \<Rightarrow> string \<Rightarrow> string \<Rightarrow> string \<Rightarrow> state \<Rightarrow> bool \<times> state" where
  "importDraftFromCascade S e did wallet documentKeyBase64 s =
     (if \<not> lumeraClient s then (False, s)
      else case find (is_invitation_for wallet did) (all_actions e 1) of
        None \<Rightarrow> (False, s)
      | Some invitationAction \<Rightarrow>
          (case download_invitation e (la_id invitationAction) of
             Inl err \<Rightarrow> (False, s)
           | Inr invitation \<Rightarrow>
               (case getOrDeriveDerivedKey S e s of
                  (Inl err, s1) \<Rightarrow> (False, s1)
                | (Inr derivedKey, s1) \<Rightarrow>
                    (case from_base64 S documentKeyBase64 of
                       Inl err \<Rightarrow> (False, s1)
                     | Inr documentKey \<Rightarrow>
                    case encryptKeyForCollaborator (sodiumReady s1) S (random_bytes e 0)
                           documentKey derivedKey wallet of
                      Inl err \<Rightarrow> (False, s1)
                    | Inr keyShare \<Rightarrow>
                        let d = \<lparr>draftId = i_draftId invitation,
                                 title = i_draftTitle invitation,
                                 status = Shared,
                                 ownerEncryptedKey = [], ownerKeyNonce = [],
                                 owner = i_owner invitation,
                                 collaborators =
                                   [\<lparr>c_wallet = wallet, c_name = wallet,
                                     c_keyShare = keyShare,
                                     c_addedAt = i_createdAt invitation,
                                     c_addedBy = i_invitedBy invitation,
                                     c_documentKeyBase64 = None\<rparr>],
                                 versions =
                                   [\<lparr>v_version = i_latestVersion invitation,
                                     v_actionId = i_latestActionId invitation,
                                     v_createdAt = i_createdAt invitation,
                                     v_createdBy = i_owner invitation,
                                     v_message = Some ''Shared draft''\<rparr>],
                                 createdAt = i_createdAt invitation,
                                 updatedAt = clock e 0\<rparr>
                        in (True,
                            s1\<lparr>localStorage_drafts :=
                                 saveDraft d (localStorage_drafts s1)\<rparr>)))))"

text \<open>\<^verbatim>\<open>existingCollab.keyShare = keyShare\<close>: the first entry for the wallet is the one changed.\<close>

fun set_keyShare :: "string \<Rightarrow> encrypted_key_share \<Rightarrow> collaborator list \<Rightarrow> collaborator list" where
  "set_keyShare wallet keyShare [] = []"
| "set_keyShare wallet keyShare (c # cs) =
     (if c_wallet c = wallet then c\<lparr>c_keyShare := keyShare\<rparr> # cs
      else c # set_keyShare wallet keyShare cs)"

definition NOT_INVITED :: string where
  "NOT_INVITED = ''You are not invited to this draft. The link may be invalid or meant for someone else.''"

text \<open>
  \<open>processSecureShareLink\<close>. With a local draft, the key derivation and the wrapping are
  outside any \<^verbatim>\<open>try\<close>, so their throws leave the function. Without one, both helpers
  return a boolean and the outer \<^verbatim>\<open>catch\<close> is never entered.
\<close>

definition processSecureShareLink ::
  "sodium \<Rightarrow> env \<Rightarrow> string \<Rightarrow> string \<Rightarrow> state \<Rightarrow> (error + share_result) \<times> state" where
  "processSecureShareLink S e did documentKeyBase64 s =
     (if \<not> truthy (connectedAddress s)
      then (Inr \<lparr>sr_success = False, sr_message = ''Please connect your wallet first''\<rparr>, s)
      else
        let wallet = the (connectedAddress s) in
        case getDraft did (localStorage_drafts s) of
          Some existingDraft \<Rightarrow>
            if owner existingDraft = wallet
            then (Inr \<lparr>sr_success = True, sr_message = ''You are the owner of this draft''\<rparr>, s)
            else
              (case find (\<lambda>c. c_wallet c = wallet) (collaborators existingDraft) of
                 None \<Rightarrow>
                   (Inr \<lparr>sr_success = False, sr_message = ''You are not invited to this draft''\<rparr>, s)
               | Some existingCollab \<Rightarrow>
                   if ks_encryptedKey (c_keyShare existingCollab) \<noteq> []
                   then (Inr \<lparr>sr_success = True,
                               sr_message = ''You already have access to this draft''\<rparr>, s)
                   else
                     (case getOrDeriveDerivedKey S e s of
                        (Inl err, s1) \<Rightarrow> (Inl err, s1)
                      | (Inr derivedKey, s1) \<Rightarrow>
                          (case from_base64 S documentKeyBase64 of
                             Inl err \<Rightarrow> (Inl err, s1)
                           | Inr documentKey \<Rightarrow>
                          case encryptKeyForCollaborator (sodiumReady s1) S (random_bytes e 0)
                                 documentKey derivedKey wallet of
                            Inl err \<Rightarrow> (Inl err, s1)
                          | Inr keyShare \<Rightarrow>
                              let d' = existingDraft
                                    \<lparr>collaborators :=
                                       set_keyShare wallet keyShare
                                         (collaborators existingDraft)\<rparr>
                              in (Inr \<lparr>sr_success = True,
                                       sr_message = ''Access key imported successfully!''\<rparr>,
                                  s1\<lparr>localStorage_drafts :=
                                       saveDraft d' (localStorage_drafts s1)\<rparr>))))
        | None \<Rightarrow>
            if \<not> verifyInvitationOnCascade e did wallet
            then (Inr \<lparr>sr_success = False, sr_message = NOT_INVITED\<rparr>, s)
            else
              (case importDraftFromCascade S e did wallet documentKeyBase64 s of
                 (True, s1) \<Rightarrow>
                   (Inr \<lparr>sr_success = True,
                         sr_message = ''Draft imported successfully! You can now edit it.''\<rparr>, s1)
               | (False, s1) \<Rightarrow>
                   (Inr \<lparr>sr_success = False,
                         sr_message = ''Failed to import draft from Cascade''\<rparr>, s1)))"

subsection \<open>Merging the versions found on the index\<close>

text \<open>
  A version found on the index: the entry pushed into \<open>draftMap\<close> by \<open>fetchUserDrafts\<close> and
  the element of \<open>cascadeVersions\<close> in \<open>fetchInvitedDrafts\<close>. All entries found by one call
  carry the time of that call.
\<close>

record cascade_version =
  cv_version :: int
  cv_actionId :: string
  cv_createdAt :: nat
  cv_createdBy :: string

definition synced :: "cascade_version \<Rightarrow> draft_version" where
  "synced v =
     \<lparr>v_version = cv_version v, v_actionId = cv_actionId v, v_createdAt = cv_createdAt v,
      v_createdBy = cv_createdBy v, v_message = Some ''Synced from Cascade''\<rparr>"

text \<open>
  The loop that pushes the missing versions: the test \<^verbatim>\<open>some(lv => lv.version === v.version)\<close>
  sees the elements pushed by the earlier iterations.
\<close>

fun add_missing :: "draft_version list \<Rightarrow> cascade_version list \<Rightarrow> draft_version list" where
  "add_missing local [] = local"
| "add_missing local (v # vs) =
     add_missing
       (if list_ex (\<lambda>lv. v_version lv = cv_version v) local then local
        else local @ [synced v])
       vs"

text \<open>\<^verbatim>\<open>versions[versions.length - 1]?.version || 0\<close>\<close>

definition local_latest :: "draft_version list \<Rightarrow> int" where
  "local_latest vs = (if vs = [] then 0 else v_version (last vs))"

text \<open>
  The block shared by \<open>fetchUserDrafts\<close> and \<open>fetchInvitedDrafts\<close>, on a non-empty array of
  found versions already sorted by the caller: the draft to save, or nothing when the newest
  found version is not newer than the last local one. \<^verbatim>\<open>Array.prototype.sort\<close> is stable, as
  \<open>sort_key\<close> is.
\<close>

definition sync_from_cascade :: "nat \<Rightarrow> cascade_version list \<Rightarrow> draft \<Rightarrow> draft option" where
  "sync_from_cascade now found localDraft =
     (let latestVersion = last found;
          localLatestVersion = local_latest (versions localDraft)
      in if cv_version latestVersion > localLatestVersion
         then Some (localDraft
                      \<lparr>versions := sort_key v_version (add_missing (versions localDraft) found),
                       updatedAt := now\<rparr>)
         else None)"

text \<open>
  What each function does to one local draft, given the versions it found for it:
  \<open>fetchUserDrafts\<close> sorts them; \<open>fetchInvitedDrafts\<close> keeps the positive numbers, does nothing
  if none is left, and sorts them.
\<close>

definition syncUserDraft :: "nat \<Rightarrow> cascade_version list \<Rightarrow> draft \<Rightarrow> draft option" where
  "syncUserDraft now found localDraft =
     sync_from_cascade now (sort_key cv_version found) localDraft"

definition syncInvitedDraft :: "nat \<Rightarrow> cascade_version list \<Rightarrow> draft \<Rightarrow> draft option" where
  "syncInvitedDraft now found d =
     (let cascadeVersions = filter (\<lambda>v. cv_version v > 0) found
      in if cascadeVersions = [] then None
         else sync_from_cascade now (sort_key cv_version cascadeVersions) d)"

text \<open>The draft after the merge, whether it was saved or left as it was.\<close>

definition merged :: "draft option \<Rightarrow> draft \<Rightarrow> draft" where
  "merged result d = (case result of Some d' \<Rightarrow> d' | None \<Rightarrow> d)"

subsection \<open>Finding the versions on the index\<close>



definition found_version :: "env \<Rightarrow> lumescope_action \<Rightarrow> int \<Rightarrow> cascade_version" where
  "found_version e action n =
     \<lparr>cv_version = n, cv_actionId = la_id action, cv_createdAt = clock e 0,
      cv_createdBy = la_creator action\<rparr>"




record stored_draft =
  sd_draftId :: string
  sd_title :: string
  sd_status :: document_status
  sd_collaboratorCount :: nat
  sd_latestVersion :: int
  sd_updatedAt :: nat
  sd_owner :: "string option"

text \<open>\<^verbatim>\<open>d.versions[d.versions.length - 1]?.version || 1\<close>\<close>

definition latest_or_1 :: "draft_version list \<Rightarrow> int" where
  "latest_or_1 vs = (if vs = [] \<or> v_version (last vs) = 0 then 1 else v_version (last vs))"





definition invited_found :: "env \<Rightarrow> lumescope_action list \<Rightarrow> string \<Rightarrow> cascade_version list" where
  "invited_found e actions did =
     List.map_filter
       (\<lambda>action.
          case regex_match e (file_name_of action) of
            None \<Rightarrow> None
          | Some (did', n) \<Rightarrow>
              if did' = did \<and> la_state action = ''ACTION_STATE_DONE''
              then Some (found_version e action n) else None)
       actions"

text \<open>
  The loop of \<open>fetchInvitedDrafts\<close> over the drafts read at its start: each is merged and, if
  changed, saved over the stored draft of the same id.
\<close>

fun sync_invited_drafts ::
  "env \<Rightarrow> lumescope_action list \<Rightarrow> draft list \<Rightarrow> draft list \<Rightarrow> draft list \<times> draft list" where
  "sync_invited_drafts e actions [] drafts = ([], drafts)"
| "sync_invited_drafts e actions (d # rest) drafts =
     (let result = syncInvitedDraft (clock e 1) (invited_found e actions (draftId d)) d;
          drafts' = (case result of Some d' \<Rightarrow> saveDraft d' drafts | None \<Rightarrow> drafts);
          (ds, drafts'') = sync_invited_drafts e actions rest drafts'
      in (merged result d # ds, drafts''))"

definition fetchInvitedDrafts :: "env \<Rightarrow> string \<Rightarrow> state \<Rightarrow> stored_draft list \<times> state" where
  "fetchInvitedDrafts e walletAddress s =
     (let allDrafts = localStorage_drafts s;
          invitedDrafts =
            filter (\<lambda>d. owner d \<noteq> walletAddress \<and>
                         list_ex (\<lambda>c. c_wallet c = walletAddress) (collaborators d))
              allDrafts;
          (invitedDrafts', drafts') =
            sync_invited_drafts e (all_actions e 0) invitedDrafts allDrafts
      in (map (\<lambda>d. \<lparr>sd_draftId = draftId d, sd_title = title d, sd_status = status d,
                     sd_collaboratorCount = length (collaborators d),
                     sd_latestVersion = latest_or_1 (versions d),
                     sd_updatedAt = updatedAt d, sd_owner = Some (owner d)\<rparr>)
            invitedDrafts',
          s\<lparr>localStorage_drafts := drafts'\<rparr>))"

subsection \<open>The operations on the state\<close>



subsection \<open>How the caller tells the failures apart\<close>

text \<open>
  The caller of \<open>loadDraftContent\<close> (ui.ts) tests \<^verbatim>\<open>errorMessage.includes('NO_KEY_SHARE')\<close>.
  The decryption failures are the two throws of crypto.ts on a box that opened to \<^verbatim>\<open>null\<close>,
  and the two throws of libsodium-wrappers on a tag that does not verify and on text that is
  not base64.
\<close>

fun String_includes :: "string \<Rightarrow> string \<Rightarrow> bool" where
  "String_includes [] sub = (sub = [])"
| "String_includes (c # cs) sub = (take (length sub) (c # cs) = sub \<or> String_includes cs sub)"

fun is_NoKeyShare :: "error \<Rightarrow> bool" where
  "is_NoKeyShare (Error message) = String_includes message ''NO_KEY_SHARE''"

definition is_DecryptionFailed :: "error \<Rightarrow> bool" where
  "is_DecryptionFailed err \<longleftrightarrow>
     err = Error ''Decryption failed - invalid key or corrupted data'' \<or>
     err = Error ''Failed to decrypt key share - invalid credentials'' \<or>
     err = Error ''wrong secret key for the given ciphertext'' \<or>
     err = Error ''invalid input''"

text \<open>
  What telling the failures apart asks of the library: no error that it throws while the
  base64 texts are decoded and the box is opened carries the text \<^verbatim>\<open>NO_KEY_SHARE\<close>.
\<close>

definition foreign_errors :: "sodium \<Rightarrow> bool" where
  "foreign_errors S \<longleftrightarrow>
     (\<forall>ciphertext64 nonce64 key err.
        secretbox_open_base64 S ciphertext64 nonce64 key = Inl err \<longrightarrow> \<not> is_NoKeyShare err)"

text \<open>
  The key share an identity holds for a draft and that \<open>getDocumentKey\<close> unwraps: the owner's,
  or the one of the collaborator entry when neither of its fields is empty.
\<close>

definition held_key_share :: "draft \<Rightarrow> string \<Rightarrow> encrypted_key_share option" where
  "held_key_share d wallet =
     (if owner d = wallet then
        Some \<lparr>ks_wallet = wallet, ks_encryptedKey = ownerEncryptedKey d,
              ks_nonce = ownerKeyNonce d\<rparr>
      else
        (case find (\<lambda>c. c_wallet c = wallet) (collaborators d) of
           Some c \<Rightarrow>
             if ks_encryptedKey (c_keyShare c) = [] \<or> ks_nonce (c_keyShare c) = [] then None
             else Some (c_keyShare c)
         | None \<Rightarrow> None))"

subsection \<open>What the merge guarantees\<close>

text \<open>
  The versions array after a merge that ran, against the local array and the found
  versions: every found number is present; a number that was missing is there exactly once;
  every local record is kept as it was; every other record is the record made from a found
  version; and the array is sorted by version number.
\<close>

definition merged_versions ::
  "draft_version list \<Rightarrow> cascade_version list \<Rightarrow> draft_version list \<Rightarrow> bool" where
  "merged_versions local found result \<longleftrightarrow>
     (\<forall>f \<in> set found. cv_version f \<in> v_version ` set result) \<and>
     (\<forall>n. n \<notin> v_version ` set local \<longrightarrow> n \<in> cv_version ` set found \<longrightarrow>
          length (filter (\<lambda>lv. v_version lv = n) result) = 1) \<and>
     mset local \<subseteq># mset result \<and>
     set result \<subseteq> set local \<union> synced ` set found \<and>
     sorted (map v_version result)"

definition positive_versions :: "cascade_version list \<Rightarrow> cascade_version list" where
  "positive_versions found = filter (\<lambda>v. cv_version v > 0) found"

subsection \<open>Conditions on the outside\<close>



section \<open>Concrete sessions\<close>

text \<open>
  Alice owns the draft \<open>d1\<close>: her master key is 32 bytes \<open>18\<close>, the hash of the signature
  \<open>[9, 9]\<close> in \<open>model_env\<close>, and the document key, 32 bytes \<open>1\<close>, is wrapped under it with the
  nonce of 24 bytes \<open>7\<close>. Bob, whose master key is 32 bytes \<open>8\<close>, is invited to \<open>d1\<close> with the
  placeholder share, or has imported it at version 2. Text is ASCII, one byte a character.
\<close>

definition model_utf8_encode :: "string \<Rightarrow> bytes" where
  "model_utf8_encode s = map (\<lambda>c. of_nat (of_char c :: nat)) s"

definition model_utf8_decode :: "bytes \<Rightarrow> string" where
  "model_utf8_decode b = map (\<lambda>w. char_of (unat w)) b"

definition model_regex_match :: "string \<Rightarrow> (string \<times> int) option" where
  "model_regex_match name =
     (if name = ''draft_d1_v1.json'' then Some (''d1'', 1)
      else if name = ''draft_d1_v2.json'' then Some (''d1'', 2)
      else if name = ''draft_d1_v3.json'' then Some (''d1'', 3)
      else None)"

definition model_env :: env where
  "model_env =
     \<lparr>keygen_bytes = replicate 32 1,
      random_bytes = (\<lambda>i. if i = 2 then [100, 50] else replicate 24 7),
      sign_result = Inr [9, 9],
      clock = (\<lambda>i. 1000 + i),
      upload_answer =
        (\<lambda>request. Inr \<lparr>r_action_id = Some ''a2'', r_taskId = None, r_actionId = None\<rparr>),
      download_text =
        (\<lambda>actionId. if actionId = ''a1'' then Inr manifest_text
                      else Inl (Error ''Download failed'')),
      download_invitation = (\<lambda>actionId. Inl (Error ''Download failed'')),
      creator_items = Inr [],
      all_actions = (\<lambda>i. []),
      json_parse = model_JSON_parse,
      regex_match = model_regex_match,
      utf8_encode = model_utf8_encode,
      utf8_decode = model_utf8_decode\<rparr>"

definition offline_env :: env where
  "offline_env = model_env\<lparr>upload_answer := (\<lambda>request. Inl (Error ''Upload failed''))\<rparr>"

definition index_actions :: "lumescope_action list" where
  "index_actions =
     [\<lparr>la_id = ''a1'', la_type = ''ACTION_TYPE_CASCADE'', la_creator = ''alice'',
       la_state = ''ACTION_STATE_DONE'', la_file_name = Some ''draft_d1_v1.json''\<rparr>,
      \<lparr>la_id = ''a2'', la_type = ''ACTION_TYPE_CASCADE'', la_creator = ''alice'',
       la_state = ''ACTION_STATE_DONE'', la_file_name = Some ''draft_d1_v2.json''\<rparr>]"

definition indexed_env :: env where
  "indexed_env = model_env\<lparr>all_actions := (\<lambda>i. index_actions)\<rparr>"

definition version_1 :: draft_version where
  "version_1 =
     \<lparr>v_version = 1, v_actionId = ''a1'', v_createdAt = 5, v_createdBy = ''alice'',
      v_message = Some ''Initial draft''\<rparr>"

definition alice_draft :: draft where
  "alice_draft =
     \<lparr>draftId = ''d1'', title = ''T'', status = Draft,
      ownerEncryptedKey = model_to_base64 (replicate 16 18 @ replicate 32 1),
      ownerKeyNonce = model_to_base64 (replicate 24 7),
      owner = ''alice'', collaborators = [], versions = [version_1],
      createdAt = 5, updatedAt = 5\<rparr>"

definition placeholder_bob :: collaborator where
  "placeholder_bob =
     \<lparr>c_wallet = ''bob'', c_name = ''Bob'',
      c_keyShare = \<lparr>ks_wallet = ''bob'', ks_encryptedKey = [], ks_nonce = []\<rparr>,
      c_addedAt = 6, c_addedBy = ''alice'', c_documentKeyBase64 = None\<rparr>"

definition shared_draft :: draft where
  "shared_draft = alice_draft\<lparr>status := Shared, collaborators := [placeholder_bob]\<rparr>"

definition imported_draft :: draft where
  "imported_draft =
     \<lparr>draftId = ''d1'', title = ''T'', status = Shared,
      ownerEncryptedKey = [], ownerKeyNonce = [],
      owner = ''alice'',
      collaborators =
        [placeholder_bob
           \<lparr>c_keyShare := \<lparr>ks_wallet = ''bob'',
                            ks_encryptedKey =
                              model_to_base64 (replicate 16 8 @ replicate 32 1),
                            ks_nonce = model_to_base64 (replicate 24 7)\<rparr>\<rparr>],
      versions =
        [\<lparr>v_version = 2, v_actionId = ''a2'', v_createdAt = 6, v_createdBy = ''alice'',
          v_message = Some ''Shared draft''\<rparr>],
      createdAt = 6, updatedAt = 6\<rparr>"

definition alice_state :: state where
  "alice_state =
     \<lparr>localStorage_drafts = [alice_draft],
      connectedAddress = Some ''alice'',
      sodiumReady = True,
      lumeraClient = True,
      cachedDerivedKey = None,
      keyDerivationPromise = None,
      promises = (\<lambda>p. Pending),
      promise_count = 0,
      signMessage_calls = 0,
      cascade_files = []\<rparr>"

definition bob_state :: "draft list \<Rightarrow> state" where
  "bob_state drafts =
     alice_state\<lparr>localStorage_drafts := drafts, connectedAddress := Some ''bob'',
                 cachedDerivedKey := Some (replicate 32 8)\<rparr>"

definition found_1 :: cascade_version where
  "found_1 = \<lparr>cv_version = 1, cv_actionId = ''a1'', cv_createdAt = 9, cv_createdBy = ''alice''\<rparr>"

definition found_2 :: cascade_version where
  "found_2 = \<lparr>cv_version = 2, cv_actionId = ''a2'', cv_createdAt = 9, cv_createdBy = ''alice''\<rparr>"

definition found_3 :: cascade_version where
  "found_3 = \<lparr>cv_version = 3, cv_actionId = ''a3'', cv_createdAt = 9, cv_createdBy = ''bob''\<rparr>"






section \<open>Properties of crypto.ts and paper.ts\<close>

lemma model_base64_inverse: "base64_inverse model_sodium"
proof -
  have "(of_nat (of_char (char_of (unat w)) :: nat) :: byte) = w" for w :: byte
  proof -
    have "unat w < 256" using unsigned_less [of w] by simp
    then show ?thesis by simp
  qed
  then show ?thesis
    by (simp add: base64_inverse_def model_sodium_def model_to_base64_def
        model_from_base64_def comp_def)
qed

lemma model_secretbox_opens: "secretbox_opens model_sodium"
  by (simp add: secretbox_opens_def model_sodium_def model_easy_def model_open_easy_def)

lemma model_libsodium_sizes: "libsodium_sizes model_sodium"
  by (auto simp: libsodium_sizes_def model_sodium_def model_easy_def split: if_splits)

lemma model_base64_roundtrip [simp]: "model_from_base64 (model_to_base64 b) = Inr b"
  using model_base64_inverse by (simp add: base64_inverse_def model_sodium_def)

lemma model_to_base64_Nil [simp]: "model_to_base64 b = [] \<longleftrightarrow> b = []"
  by (simp add: model_to_base64_def)

lemma model_foreign_errors: "foreign_errors model_sodium"
  by (auto simp: foreign_errors_def secretbox_open_base64_def model_sodium_def
      model_from_base64_def model_open_easy_def split: if_splits)

lemma declared_foreign_errors: "foreign_errors declared_sodium"
  by (auto simp: foreign_errors_def secretbox_open_base64_def declared_sodium_def
      model_sodium_def model_from_base64_def model_open_easy_def split: if_splits)

lemmas model_simps =
  model_sodium_def model_env_def alice_state_def bob_state_def alice_draft_def
  shared_draft_def placeholder_bob_def imported_draft_def version_1_def
  model_easy_def model_open_easy_def

lemmas op_simps =
  getDraft_def truthy_def getOrDeriveDerivedKey_def getOrDeriveDerivedKey_call_def
  derivation_outcome_def signMessage_settles_def deriveKeyFromSignature_def
  getDocumentKey_def decryptKeyShare_def decryptDocument_def encryptDocument_def
  encryptKeyForCollaborator_def generateDocumentKey_def secretbox_open_base64_def Let_def



lemma card_bytes_of_length: "card {k :: bytes. length k = n} = 256 ^ n"
proof -
  have "card {k :: bytes. set k \<subseteq> UNIV \<and> length k = n} = card (UNIV :: byte set) ^ n"
    by (rule card_lists_length_eq) simp
  then show ?thesis by (simp add: card_word)
qed

lemma finite_bytes_of_length: "finite {k :: bytes. length k = n}"
  using finite_lists_length_eq [of "UNIV :: byte set" n] by simp

text \<open>
  Two keys seal the empty message, under one nonce, to the same box: there are \<open>256^32\<close>
  keys and \<open>256^16\<close> boxes of 16 bytes.
\<close>

lemma two_keys_one_box:
  assumes opens: "secretbox_opens S" and sizes: "libsodium_sizes S"
  shows "\<exists>k k' c. k \<noteq> k' \<and> length k = 32 \<and> length k' = 32 \<and>
           crypto_secretbox_easy S [] (replicate 24 0) k = Inr c \<and>
           crypto_secretbox_easy S [] (replicate 24 0) k' = Inr c"
proof -
  let ?n = "replicate 24 0 :: bytes"
  let ?K = "{k :: bytes. length k = 32}"
  let ?C = "{c :: bytes. length c = 16}"
  let ?f = "\<lambda>k. crypto_secretbox_easy S [] ?n k"
  have KB: "crypto_secretbox_KEYBYTES S = 32" and NB: "crypto_secretbox_NONCEBYTES S = 24"
    using sizes by (simp_all add: libsodium_sizes_def)
  have seals: "\<exists>c. ?f k = Inr c \<and> length c = 16" if len: "length k = 32" for k
  proof -
    have "length ?n = crypto_secretbox_NONCEBYTES S" "length k = crypto_secretbox_KEYBYTES S"
      using len KB NB by simp_all
    then obtain c where c: "?f k = Inr c"
      using opens unfolding secretbox_opens_def by blast
    then have "length c = 16 + length ([] :: bytes)"
      using sizes unfolding libsodium_sizes_def by blast
    with c show ?thesis by simp
  qed
  have "\<not> inj_on ?f ?K"
  proof
    assume inj: "inj_on ?f ?K"
    have "?f ` ?K \<subseteq> Inr ` ?C"
      using seals by auto
    moreover have "finite (Inr ` ?C :: (error + bytes) set)"
      using finite_bytes_of_length by simp
    ultimately have "card ?K \<le> card (Inr ` ?C :: (error + bytes) set)"
      using card_inj_on_le [OF inj] by blast
    also have "\<dots> = card ?C"
      by (simp add: card_image)
    finally have "(256 :: nat) ^ 32 \<le> 256 ^ 16"
      by (simp only: card_bytes_of_length)
    then show False by simp
  qed
  then obtain k k' where "length k = 32" "length k' = 32" "k \<noteq> k'" "?f k = ?f k'"
    unfolding inj_on_def by auto
  with seals [of k] show ?thesis by metis
qed

text \<open>
  C8 as stated fails in its last part. No cipher with the sizes of libsodium's secretbox
  (keys of 32 bytes, a box 16 bytes longer than its message) whose boxes open under their
  own key can make \<open>decryptKeyShare\<close> fail under every other master key: two master keys
  wrap the empty document key to the same share, and each unwraps the share of the other.
\<close>

theorem no_cipher_rejects_every_other_key:
  "\<not> (\<exists>S. base64_inverse S \<and> secretbox_opens S \<and> libsodium_sizes S \<and> other_keys_fail S)"
proof
  assume "\<exists>S. base64_inverse S \<and> secretbox_opens S \<and> libsodium_sizes S \<and> other_keys_fail S"
  then obtain S where b64: "base64_inverse S" and opens: "secretbox_opens S"
    and sizes: "libsodium_sizes S" and fail: "other_keys_fail S"
    by blast
  let ?n = "replicate 24 0 :: bytes"
  have KB: "crypto_secretbox_KEYBYTES S = 32" and NB: "crypto_secretbox_NONCEBYTES S = 24"
    using sizes by (simp_all add: libsodium_sizes_def)
  obtain k k' c where kk: "k \<noteq> k'" "length k = 32" "length k' = 32"
    and c: "crypto_secretbox_easy S [] ?n k = Inr c"
    and c': "crypto_secretbox_easy S [] ?n k' = Inr c"
    using two_keys_one_box [OF opens sizes] by blast
  have "\<exists>x. crypto_secretbox_easy S [] ?n k' = Inr x \<and>
            crypto_secretbox_open_easy S x ?n k' = Inr (Some [])"
    using opens kk(3) KB NB unfolding secretbox_opens_def by (metis length_replicate)
  with c' have op: "crypto_secretbox_open_easy S c ?n k' = Inr (Some [])"
    by simp
  let ?sh = "\<lparr>ks_wallet = [], ks_encryptedKey = to_base64 S c, ks_nonce = to_base64 S ?n\<rparr>"
  have enc: "encryptKeyForCollaborator True S ?n [] k [] = Inr ?sh"
    using c by (simp add: encryptKeyForCollaborator_def)
  have dec: "decryptKeyShare True S ?sh k' = Inr []"
    using b64 op by (simp add: decryptKeyShare_def secretbox_open_base64_def base64_inverse_def)
  have "isl (decryptKeyShare True S ?sh k')"
    using fail kk enc KB NB unfolding other_keys_fail_def
    by (metis length_replicate)
  with dec show False by simp
qed

text \<open>
  C8, amended. With libsodium initialised and meeting its contract: for every plaintext \<open>P\<close>, every
  key \<open>K\<close> of the key size and every fresh nonce, decrypting what \<open>encryptDocument\<close> produced,
  under \<open>K\<close>, returns \<open>P\<close>; for every document key \<open>D\<close> and master key \<open>M\<close> of the key size,
  \<open>decryptKeyShare\<close> of the share made by \<open>encryptKeyForCollaborator\<close> returns \<open>D\<close> under \<open>M\<close>;
  and under any master key \<open>M'\<close> it ends as the library's opening of the box under \<open>M'\<close>
  ends: with the library's error when that throws, with the key-share decryption error when
  it returns \<^verbatim>\<open>null\<close>, and with the bytes it opens to otherwise.
\<close>

theorem encrypt_decrypt_roundtrip:
  assumes "base64_inverse S" and "secretbox_opens S"
    and "length K = crypto_secretbox_KEYBYTES S"
    and "length M = crypto_secretbox_KEYBYTES S"
    and "length n1 = crypto_secretbox_NONCEBYTES S"
    and "length n2 = crypto_secretbox_NONCEBYTES S"
  shows "(\<exists>e. encryptDocument True S n1 P K = Inr e \<and> decryptDocument True S e K = Inr P) \<and>
         (\<exists>box sh. crypto_secretbox_easy S D n2 M = Inr box \<and>
               encryptKeyForCollaborator True S n2 D M w = Inr sh \<and>
               decryptKeyShare True S sh M = Inr D \<and>
               (\<forall>M'. decryptKeyShare True S sh M' =
                  (case crypto_secretbox_open_easy S box n2 M' of
                     Inl err \<Rightarrow> Inl err
                   | Inr None \<Rightarrow> Inl (Error ''Failed to decrypt key share - invalid credentials'')
                   | Inr (Some D') \<Rightarrow> Inr D')))"
proof -
  have b: "\<And>x. from_base64 S (to_base64 S x) = Inr x"
    using assms(1) by (simp add: base64_inverse_def)
  obtain c where c: "crypto_secretbox_easy S P n1 K = Inr c"
    and oc: "crypto_secretbox_open_easy S c n1 K = Inr (Some P)"
    using assms(2,3,5) unfolding secretbox_opens_def by blast
  have doc: "decryptDocument True S
      \<lparr>ed_ciphertext = to_base64 S c,
       ed_nonce = to_base64 S n1, ed_algorithm = ''xchacha20-poly1305''\<rparr> K = Inr P"
    using oc by (simp add: decryptDocument_def secretbox_open_base64_def b)
  obtain box where box: "crypto_secretbox_easy S D n2 M = Inr box"
    and ob: "crypto_secretbox_open_easy S box n2 M = Inr (Some D)"
    using assms(2,4,6) unfolding secretbox_opens_def by blast
  let ?sh = "\<lparr>ks_wallet = w, ks_encryptedKey = to_base64 S box, ks_nonce = to_base64 S n2\<rparr>"
  have enc: "encryptKeyForCollaborator True S n2 D M w = Inr ?sh"
    using box by (simp add: encryptKeyForCollaborator_def)
  have any: "decryptKeyShare True S ?sh M' =
      (case crypto_secretbox_open_easy S box n2 M' of
         Inl err \<Rightarrow> Inl err
       | Inr None \<Rightarrow> Inl (Error ''Failed to decrypt key share - invalid credentials'')
       | Inr (Some D') \<Rightarrow> Inr D')" for M'
    by (simp add: decryptKeyShare_def secretbox_open_base64_def b)
  have good: "decryptKeyShare True S ?sh M = Inr D"
    using ob by (simp add: any)
  have "encryptDocument True S n1 P K =
      Inr \<lparr>ed_ciphertext = to_base64 S c,
           ed_nonce = to_base64 S n1, ed_algorithm = ''xchacha20-poly1305''\<rparr>"
    using c by (simp add: encryptDocument_def)
  with doc have 1: "\<exists>e. encryptDocument True S n1 P K = Inr e \<and> decryptDocument True S e K = Inr P"
    by simp
  from box enc good any show ?thesis
    using 1 by blast
qed

theorem encrypt_decrypt_roundtrip_witness:
  "(\<exists>e. encryptDocument True model_sodium (replicate 24 9) [104, 105] (replicate 32 1) = Inr e \<and>
        decryptDocument True model_sodium e (replicate 32 1) = Inr [104, 105]) \<and>
   (\<exists>box sh. model_easy (replicate 32 1) (replicate 24 7) (replicate 32 3) = Inr box \<and>
         encryptKeyForCollaborator True model_sodium (replicate 24 7) (replicate 32 1)
           (replicate 32 3) ''lumera1bob'' = Inr sh \<and>
         decryptKeyShare True model_sodium sh (replicate 32 3) = Inr (replicate 32 1) \<and>
         (\<forall>M'. decryptKeyShare True model_sodium sh M' =
            (case model_open_easy box (replicate 24 7) M' of
               Inl err \<Rightarrow> Inl err
             | Inr None \<Rightarrow> Inl (Error ''Failed to decrypt key share - invalid credentials'')
             | Inr (Some D') \<Rightarrow> Inr D')))"
  using encrypt_decrypt_roundtrip [OF model_base64_inverse model_secretbox_opens,
      of "replicate 32 1" "replicate 32 3" "replicate 24 9" "replicate 24 7"
      "[104, 105]" "replicate 32 1" "''lumera1bob''"]
  by (simp add: model_sodium_def)

text \<open>
  C10. \<open>parseEncryptedDraftManifest\<close> returns on every input and never throws: the result is
  \<^verbatim>\<open>null\<close> when \<^verbatim>\<open>JSON.parse\<close> throws and when the \<^verbatim>\<open>type\<close> of the parsed value is not the
  string \<^verbatim>\<open>encrypted_draft\<close> (also when reading it throws, on \<^verbatim>\<open>null\<close>), and the parsed value
  itself otherwise.
\<close>

theorem parseEncryptedDraftManifest_total:
  "parseEncryptedDraftManifest JSON_parse data =
     Inr (case JSON_parse data of
            Inl e \<Rightarrow> None
          | Inr manifest \<Rightarrow>
              if get_type manifest = Inr (Some (JString ''encrypted_draft''))
              then Some manifest else None)"
  by (auto simp: parseEncryptedDraftManifest_def parseEncryptedDraftManifest_try_def
      split: sum.splits)

subsection \<open>Key derivation\<close>

lemma calls_in_flight:
  "cachedDerivedKey s = None \<Longrightarrow> keyDerivationPromise s = Some p \<Longrightarrow>
   concurrent_calls n s = (replicate n (Awaits p), s)"
  by (induction n) (simp_all add: getOrDeriveDerivedKey_call_def)

text \<open>
  C9. In a session with no cached key and no derivation in flight, \<open>n \<ge> 1\<close> calls of
  \<open>getOrDeriveDerivedKey\<close> issued before any of them is resumed make exactly one call of
  \<^verbatim>\<open>signMessage\<close>; every caller holds the same promise, none has received anything yet, and
  once the wallet answers every caller receives the same outcome: the key derived from the
  signature, or the same error.
\<close>

theorem single_inflight_derivation:
  assumes "cachedDerivedKey s = None" and "keyDerivationPromise s = None" and "0 < n"
    and "concurrent_calls n s = (rs, s')"
  shows "signMessage_calls s' = signMessage_calls s + 1 \<and>
         length rs = n \<and>
         (\<forall>r \<in> set rs. r = Awaits (promise_count s) \<and> received s' r = None \<and>
            received (signMessage_settles S (promise_count s) answer s') r =
              Some (derivation_outcome S (sodiumReady s) answer))"
proof -
  obtain m where n: "n = Suc m" using assms(3) by (cases n) auto
  define s1 where "s1 = s\<lparr>promise_count := promise_count s + 1,
                     promises := (promises s)(promise_count s := Pending),
                     signMessage_calls := signMessage_calls s + 1,
                     keyDerivationPromise := Some (promise_count s)\<rparr>"
  have first: "getOrDeriveDerivedKey_call s = (Awaits (promise_count s), s1)"
    using assms(1,2) by (simp add: getOrDeriveDerivedKey_call_def s1_def Let_def)
  have rest: "concurrent_calls m s1 = (replicate m (Awaits (promise_count s)), s1)"
    by (rule calls_in_flight) (simp_all add: s1_def assms(1))
  have "concurrent_calls n s = (replicate n (Awaits (promise_count s)), s1)"
    by (simp add: n first rest)
  with assms(4) have rs: "rs = replicate n (Awaits (promise_count s))" and s': "s' = s1"
    by simp_all
  show ?thesis
    by (auto simp: rs s' s1_def signMessage_settles_def split: sum.splits)
qed

theorem single_inflight_derivation_witness:
  "signMessage_calls (snd (concurrent_calls 3 alice_state)) = 1 \<and>
   fst (concurrent_calls 3 alice_state) = [Awaits 0, Awaits 0, Awaits 0] \<and>
   received (signMessage_settles model_sodium 0 (Inr [9, 9, 4])
               (snd (concurrent_calls 3 alice_state))) (Awaits 0) =
     Some (Inr (replicate 32 22))"
proof -
  have h: "cachedDerivedKey alice_state = None" "keyDerivationPromise alice_state = None"
    "(0::nat) < 3"
    "concurrent_calls 3 alice_state =
       (fst (concurrent_calls 3 alice_state), snd (concurrent_calls 3 alice_state))"
    by (simp_all add: alice_state_def)
  note w = single_inflight_derivation [OF h, of model_sodium "Inr [9, 9, 4]"]
  have v: "promise_count alice_state = 0" "signMessage_calls alice_state = 0"
    "derivation_outcome model_sodium (sodiumReady alice_state) (Inr [9, 9, 4]) =
       Inr (replicate 32 22)"
    by (simp_all add: alice_state_def derivation_outcome_def deriveKeyFromSignature_def
        model_sodium_def)
  from w v have l: "fst (concurrent_calls 3 alice_state) = [Awaits 0, Awaits 0, Awaits 0]"
    by (auto simp: length_Suc_conv numeral_3_eq_3)
  from w v l show ?thesis by simp
qed

subsection \<open>Local storage and the key lookup\<close>


lemma getDraft_saveDraft:
  "getDraft did (saveDraft d ds) = (if draftId d = did then Some d else getDraft did ds)"
proof (induction ds)
  case Nil
  then show ?case by (simp add: getDraft_def saveDraft_def)
next
  case (Cons x ds)
  then show ?case
    by (auto simp: getDraft_def saveDraft_def split: option.splits)
qed

lemma getOrDerive_keeps:
  assumes "getOrDeriveDerivedKey S e s = (r, s')"
  shows "localStorage_drafts s' = localStorage_drafts s"
    and "cascade_files s' = cascade_files s"
    and "connectedAddress s' = connectedAddress s"
    and "lumeraClient s' = lumeraClient s"
    and "sodiumReady s' = sodiumReady s"
  using assms
  by (auto simp: getOrDeriveDerivedKey_def getOrDeriveDerivedKey_call_def Let_def
      signMessage_settles_def split: option.splits promise.splits sum.splits)

lemma getDocumentKey_keeps:
  assumes "getDocumentKey S e d s = (r, s')"
  shows "localStorage_drafts s' = localStorage_drafts s"
    and "cascade_files s' = cascade_files s"
    and "connectedAddress s' = connectedAddress s"
    and "lumeraClient s' = lumeraClient s"
    and "sodiumReady s' = sodiumReady s"
proof -
  obtain r1 s1 where g: "getOrDeriveDerivedKey S e s = (r1, s1)" by (cases "getOrDeriveDerivedKey S e s")
  have "s' = s \<or> s' = s1"
    using assms g by (auto simp: getDocumentKey_def Let_def split: if_splits sum.splits option.splits)
  with getOrDerive_keeps [OF g]
  show "localStorage_drafts s' = localStorage_drafts s"
    and "cascade_files s' = cascade_files s"
    and "connectedAddress s' = connectedAddress s"
    and "lumeraClient s' = lumeraClient s"
    and "sodiumReady s' = sodiumReady s"
    by auto
qed

subsection \<open>Loading a version\<close>

text \<open>
  C1. Where \<open>loadDraftContent\<close> gets as far as resolving the document key (the client is
  there, the draft and the version exist, the manifest downloads and parses, a wallet is
  connected and its master key is derived): for an acting identity that is not the owner and
  whose collaborator entry has an empty \<open>encryptedKey\<close> or \<open>nonce\<close>, it throws the
  \<^verbatim>\<open>NO_KEY_SHARE\<close> error. For an identity that holds a key share: when the share does not
  open under the master key, it throws what the library threw, or the key-share decryption
  error where the library returned \<^verbatim>\<open>null\<close>; when the share opens and the ciphertext does
  not open under the document key, it throws what the library threw, or the document
  decryption error where the library returned \<^verbatim>\<open>null\<close>. The caller's test for
  \<^verbatim>\<open>NO_KEY_SHARE\<close> accepts the first error and rejects every decryption failure: the two
  errors of crypto.ts and the library's errors for a wrong key and for bad base64; and with
  a library none of whose errors carries the text \<^verbatim>\<open>NO_KEY_SHARE\<close>, it rejects the error of
  every load that ends because the share or the ciphertext does not open.
\<close>

theorem load_failures_distinct:
  assumes "lumeraClient s"
    and "getDraft did (localStorage_drafts s) = Some d"
    and "version_at (versions d) versionIndex = Some v"
    and "download_text e (v_actionId v) = Inr manifestJson"
    and "parseEncryptedDraftManifest (json_parse e) manifestJson = Inr (Some manifest)"
    and "connectedAddress s = Some wallet" and "wallet \<noteq> []"
    and "getOrDeriveDerivedKey S e s = (Inr derivedKey, s')"
  shows "(owner d \<noteq> wallet \<longrightarrow>
            find (\<lambda>c. c_wallet c = wallet) (collaborators d) = Some c \<longrightarrow>
            ks_encryptedKey (c_keyShare c) = [] \<or> ks_nonce (c_keyShare c) = [] \<longrightarrow>
            fst (loadDraftContent S e did versionIndex s) = Inl (Error NO_KEY_SHARE)) \<and>
         (sodiumReady s \<longrightarrow> held_key_share d wallet = Some share \<longrightarrow>
            secretbox_open_base64 S (ks_encryptedKey share) (ks_nonce share) derivedKey =
              Inl err \<longrightarrow>
            fst (loadDraftContent S e did versionIndex s) = Inl err) \<and>
         (sodiumReady s \<longrightarrow> held_key_share d wallet = Some share \<longrightarrow>
            secretbox_open_base64 S (ks_encryptedKey share) (ks_nonce share) derivedKey =
              Inr None \<longrightarrow>
            fst (loadDraftContent S e did versionIndex s) =
              Inl (Error ''Failed to decrypt key share - invalid credentials'')) \<and>
         (sodiumReady s \<longrightarrow> held_key_share d wallet = Some share \<longrightarrow>
            secretbox_open_base64 S (ks_encryptedKey share) (ks_nonce share) derivedKey =
              Inr (Some documentKey) \<longrightarrow>
            manifest_encrypted manifest = Inr encrypted \<longrightarrow>
            secretbox_open_base64 S (ed_ciphertext encrypted) (ed_nonce encrypted) documentKey =
              Inl err' \<longrightarrow>
            fst (loadDraftContent S e did versionIndex s) = Inl err') \<and>
         (sodiumReady s \<longrightarrow> held_key_share d wallet = Some share \<longrightarrow>
            secretbox_open_base64 S (ks_encryptedKey share) (ks_nonce share) derivedKey =
              Inr (Some documentKey) \<longrightarrow>
            manifest_encrypted manifest = Inr encrypted \<longrightarrow>
            secretbox_open_base64 S (ed_ciphertext encrypted) (ed_nonce encrypted) documentKey =
              Inr None \<longrightarrow>
            fst (loadDraftContent S e did versionIndex s) =
              Inl (Error ''Decryption failed - invalid key or corrupted data'')) \<and>
         is_NoKeyShare (Error NO_KEY_SHARE) \<and>
         (\<forall>failure. is_DecryptionFailed failure \<longrightarrow> \<not> is_NoKeyShare failure) \<and>
         (foreign_errors S \<longrightarrow> sodiumReady s \<longrightarrow> held_key_share d wallet = Some share \<longrightarrow>
            (\<forall>key. secretbox_open_base64 S (ks_encryptedKey share) (ks_nonce share) derivedKey \<noteq>
               Inr (Some key)) \<longrightarrow>
            (\<exists>failure. fst (loadDraftContent S e did versionIndex s) = Inl failure \<and>
               \<not> is_NoKeyShare failure)) \<and>
         (foreign_errors S \<longrightarrow> sodiumReady s \<longrightarrow> held_key_share d wallet = Some share \<longrightarrow>
            secretbox_open_base64 S (ks_encryptedKey share) (ks_nonce share) derivedKey =
              Inr (Some documentKey) \<longrightarrow>
            manifest_encrypted manifest = Inr encrypted \<longrightarrow>
            (\<forall>bytes. secretbox_open_base64 S (ed_ciphertext encrypted) (ed_nonce encrypted)
               documentKey \<noteq> Inr (Some bytes)) \<longrightarrow>
            (\<exists>failure. fst (loadDraftContent S e did versionIndex s) = Inl failure \<and>
               \<not> is_NoKeyShare failure))"
proof -
  have ready: "sodiumReady s' = sodiumReady s"
    using assms(8) by (rule getOrDerive_keeps(5))
  have t: "truthy (connectedAddress s)"
    using assms(6,7) by (simp add: truthy_def)
  have A: "fst (loadDraftContent S e did versionIndex s) = Inl (Error NO_KEY_SHARE)"
    if "owner d \<noteq> wallet" "find (\<lambda>c. c_wallet c = wallet) (collaborators d) = Some c"
      "ks_encryptedKey (c_keyShare c) = [] \<or> ks_nonce (c_keyShare c) = []"
  proof -
    have "getDocumentKey S e d s = (Inl (Error NO_KEY_SHARE), s')"
      using that t assms(6,8) by (simp add: getDocumentKey_def)
    then show ?thesis
      using assms(1-5) by (simp add: loadDraftContent_def)
  qed
  have B: "getDocumentKey S e d s = (decryptKeyShare True S share derivedKey, s')"
    if "sodiumReady s" "held_key_share d wallet = Some share"
    using that t assms(6,8) ready
    by (auto simp: getDocumentKey_def held_key_share_def split: if_splits option.splits)
  have B1: "fst (loadDraftContent S e did versionIndex s) = Inl x"
    if "sodiumReady s" "held_key_share d wallet = Some share"
      "secretbox_open_base64 S (ks_encryptedKey share) (ks_nonce share) derivedKey = Inl x"
    for x
    using B [OF that(1,2)] that(3) assms(1-5)
    by (simp add: loadDraftContent_def decryptKeyShare_def)
  have B1': "fst (loadDraftContent S e did versionIndex s) =
              Inl (Error ''Failed to decrypt key share - invalid credentials'')"
    if "sodiumReady s" "held_key_share d wallet = Some share"
      "secretbox_open_base64 S (ks_encryptedKey share) (ks_nonce share) derivedKey = Inr None"
    using B [OF that(1,2)] that(3) assms(1-5)
    by (simp add: loadDraftContent_def decryptKeyShare_def)
  have B2: "fst (loadDraftContent S e did versionIndex s) = Inl x"
    if "sodiumReady s" "held_key_share d wallet = Some share"
      "secretbox_open_base64 S (ks_encryptedKey share) (ks_nonce share) derivedKey =
         Inr (Some documentKey)"
      "manifest_encrypted manifest = Inr encrypted"
      "secretbox_open_base64 S (ed_ciphertext encrypted) (ed_nonce encrypted) documentKey =
         Inl x"
    for x
    using B [OF that(1,2)] that(1,3,4,5) assms(1-5) ready
    by (simp add: loadDraftContent_def decryptKeyShare_def decryptDocument_def)
  have B2': "fst (loadDraftContent S e did versionIndex s) =
              Inl (Error ''Decryption failed - invalid key or corrupted data'')"
    if "sodiumReady s" "held_key_share d wallet = Some share"
      "secretbox_open_base64 S (ks_encryptedKey share) (ks_nonce share) derivedKey =
         Inr (Some documentKey)"
      "manifest_encrypted manifest = Inr encrypted"
      "secretbox_open_base64 S (ed_ciphertext encrypted) (ed_nonce encrypted) documentKey =
         Inr None"
    using B [OF that(1,2)] that(1,3,4,5) assms(1-5) ready
    by (simp add: loadDraftContent_def decryptKeyShare_def decryptDocument_def)
  have C: "is_NoKeyShare (Error NO_KEY_SHARE)"
    by (simp add: NO_KEY_SHARE_def)
  have D: "\<not> is_NoKeyShare failure" if "is_DecryptionFailed failure" for failure
    using that by (auto simp: is_DecryptionFailed_def)
  have E1: "\<exists>failure. fst (loadDraftContent S e did versionIndex s) = Inl failure \<and>
               \<not> is_NoKeyShare failure"
    if f: "foreign_errors S" and r: "sodiumReady s" and h: "held_key_share d wallet = Some share"
      and n: "\<forall>key. secretbox_open_base64 S (ks_encryptedKey share) (ks_nonce share) derivedKey \<noteq>
               Inr (Some key)"
  proof (cases "secretbox_open_base64 S (ks_encryptedKey share) (ks_nonce share) derivedKey")
    case (Inl x)
    with f have "\<not> is_NoKeyShare x" unfolding foreign_errors_def by blast
    with B1 [OF r h] Inl show ?thesis by blast
  next
    case (Inr x)
    with n have "x = None" by (cases x) auto
    with B1' [OF r h] Inr D [of "Error ''Failed to decrypt key share - invalid credentials''"]
    show ?thesis by (simp add: is_DecryptionFailed_def)
  qed
  have E2: "\<exists>failure. fst (loadDraftContent S e did versionIndex s) = Inl failure \<and>
               \<not> is_NoKeyShare failure"
    if f: "foreign_errors S" and r: "sodiumReady s" and h: "held_key_share d wallet = Some share"
      and k: "secretbox_open_base64 S (ks_encryptedKey share) (ks_nonce share) derivedKey =
              Inr (Some documentKey)"
      and m: "manifest_encrypted manifest = Inr encrypted"
      and n: "\<forall>bytes. secretbox_open_base64 S (ed_ciphertext encrypted) (ed_nonce encrypted)
               documentKey \<noteq> Inr (Some bytes)"
  proof (cases "secretbox_open_base64 S (ed_ciphertext encrypted) (ed_nonce encrypted)
               documentKey")
    case (Inl x)
    with f have "\<not> is_NoKeyShare x" unfolding foreign_errors_def by blast
    with B2 [OF r h k m] Inl show ?thesis by blast
  next
    case (Inr x)
    with n have "x = None" by (cases x) auto
    with B2' [OF r h k m] Inr D [of "Error ''Decryption failed - invalid key or corrupted data''"]
    show ?thesis by (simp add: is_DecryptionFailed_def)
  qed
  show ?thesis using A B1 B1' B2 B2' C D E1 E2 by blast
qed

theorem load_failures_distinct_witness:
  "fst (loadDraftContent model_sodium model_env ''d1'' None (bob_state [shared_draft])) =
     Inl (Error NO_KEY_SHARE) \<and>
   fst (loadDraftContent model_sodium model_env ''d1'' None
          (alice_state\<lparr>cachedDerivedKey := Some (replicate 32 5)\<rparr>)) =
     Inl (Error ''wrong secret key for the given ciphertext'') \<and>
   fst (loadDraftContent model_sodium model_env ''d1'' None alice_state) =
     Inl (Error ''wrong secret key for the given ciphertext'') \<and>
   fst (loadDraftContent declared_sodium model_env ''d1'' None
          (alice_state\<lparr>cachedDerivedKey := Some (replicate 32 5)\<rparr>)) =
     Inl (Error ''Failed to decrypt key share - invalid credentials'') \<and>
   fst (loadDraftContent declared_sodium model_env ''d1'' None alice_state) =
     Inl (Error ''Decryption failed - invalid key or corrupted data'')"
proof -
  let ?manifest = "JObject [(''type'', JString ''encrypted_draft''),
                           (''encrypted'',
                            JObject [(''ciphertext'', JString ''xxxxxxxxxxxxxxxxx''),
                                     (''nonce'', JString ''yyyyyyyyyyyyyyyyyyyyyyyy'')])]"
  let ?wrong = "alice_state\<lparr>cachedDerivedKey := Some (replicate 32 5)\<rparr>"
  let ?share = "\<lparr>ks_wallet = ''alice'',
                  ks_encryptedKey = model_to_base64 (replicate 16 18 @ replicate 32 1),
                  ks_nonce = model_to_base64 (replicate 24 7)\<rparr>"
  let ?enc = "\<lparr>ed_ciphertext = ''xxxxxxxxxxxxxxxxx'', ed_nonce = ''yyyyyyyyyyyyyyyyyyyyyyyy'',
               ed_algorithm = []\<rparr>"
  have parse: "parseEncryptedDraftManifest (json_parse model_env) manifest_text =
      Inr (Some ?manifest)"
    by (simp add: parseEncryptedDraftManifest_def parseEncryptedDraftManifest_try_def
        model_env_def model_JSON_parse_def manifest_text_def)
  have dl: "download_text model_env (v_actionId version_1) = Inr manifest_text"
    by (simp add: model_env_def version_1_def)
  have enc: "manifest_encrypted ?manifest = Inr ?enc"
    by (simp add: manifest_encrypted_def string_prop_def)
  have xy: "model_from_base64 ''xxxxxxxxxxxxxxxxx'' = Inr (replicate 17 120)"
    "model_from_base64 ''yyyyyyyyyyyyyyyyyyyyyyyy'' = Inr (replicate 24 121)"
    by (simp_all add: model_from_base64_def numeral_eq_Suc)
  have bob: "fst (loadDraftContent model_sodium model_env ''d1'' None (bob_state [shared_draft])) =
     Inl (Error NO_KEY_SHARE)"
    using load_failures_distinct [of "bob_state [shared_draft]" "''d1''" shared_draft None
        version_1 model_env manifest_text ?manifest "''bob''" model_sodium "replicate 32 8"
        "bob_state [shared_draft]" placeholder_bob] parse dl
    by (simp add: model_simps op_simps version_at_def)
  have alice1: "fst (loadDraftContent model_sodium model_env ''d1'' None ?wrong) =
     Inl (Error ''wrong secret key for the given ciphertext'')"
    using load_failures_distinct [of ?wrong "''d1''"
        alice_draft None version_1 model_env manifest_text ?manifest "''alice''" model_sodium
        "replicate 32 5" ?wrong _ ?share "Error ''wrong secret key for the given ciphertext''"]
      parse dl model_foreign_errors
    by (simp add: model_simps op_simps version_at_def held_key_share_def)
  have alice1': "fst (loadDraftContent declared_sodium model_env ''d1'' None ?wrong) =
     Inl (Error ''Failed to decrypt key share - invalid credentials'')"
    using load_failures_distinct [of ?wrong "''d1''"
        alice_draft None version_1 model_env manifest_text ?manifest "''alice''" declared_sodium
        "replicate 32 5" ?wrong _ ?share] parse dl declared_foreign_errors
    by (simp add: declared_sodium_def model_simps op_simps version_at_def held_key_share_def)
  have g: "getOrDeriveDerivedKey model_sodium model_env alice_state =
      (Inr (replicate 32 18), snd (getOrDeriveDerivedKey model_sodium model_env alice_state))"
    by (simp add: model_simps op_simps)
  have g': "getOrDeriveDerivedKey declared_sodium model_env alice_state =
      (Inr (replicate 32 18), snd (getOrDeriveDerivedKey declared_sodium model_env alice_state))"
    by (simp add: declared_sodium_def model_simps op_simps)
  have alice2: "fst (loadDraftContent model_sodium model_env ''d1'' None alice_state) =
     Inl (Error ''wrong secret key for the given ciphertext'')"
    using load_failures_distinct [of alice_state "''d1''"
        alice_draft None version_1 model_env manifest_text ?manifest "''alice''" model_sodium
        "replicate 32 18" "snd (getOrDeriveDerivedKey model_sodium model_env alice_state)" _
        ?share _ "replicate 32 1" ?enc "Error ''wrong secret key for the given ciphertext''"]
      parse dl g enc model_foreign_errors
    by (simp add: model_simps getDraft_def version_at_def held_key_share_def
        secretbox_open_base64_def xy)
  have alice2': "fst (loadDraftContent declared_sodium model_env ''d1'' None alice_state) =
     Inl (Error ''Decryption failed - invalid key or corrupted data'')"
    using load_failures_distinct [of alice_state "''d1''"
        alice_draft None version_1 model_env manifest_text ?manifest "''alice''" declared_sodium
        "replicate 32 18" "snd (getOrDeriveDerivedKey declared_sodium model_env alice_state)" _
        ?share _ "replicate 32 1" ?enc] parse dl g' enc declared_foreign_errors
    by (simp add: declared_sodium_def model_simps getDraft_def version_at_def held_key_share_def
        secretbox_open_base64_def xy)
  show ?thesis using bob alice1 alice1' alice2 alice2' by simp
qed

subsection \<open>Creating a draft\<close>

lemma createDraft_error_keeps_drafts:
  assumes "createDraft S e ttl content metadata s = (Inl err, s')"
  shows "localStorage_drafts s' = localStorage_drafts s \<and> cascade_files s' = cascade_files s"
proof -
  obtain r1 s1 where g: "getOrDeriveDerivedKey S e s = (r1, s1)"
    by (cases "getOrDeriveDerivedKey S e s")
  have "s' = s \<or> s' = s1"
    using assms g
    by (auto simp: createDraft_def Let_def split: if_splits sum.splits)
  with getOrDerive_keeps(1,2) [OF g] show ?thesis by auto
qed

text \<open>
  C4. When the blob store rejects the upload of the version-1 manifest of the new draft,
  \<open>createDraft\<close> ends with an error and the drafts in local storage are what they were.
\<close>

theorem createDraft_upload_failure_aborts:
  assumes "\<forall>request. u_fileName request = draft_file_name (generateDraftId S (random_bytes e 2)) 1
             \<longrightarrow> isl (upload_answer e request)"
  shows "\<exists>err. fst (createDraft S e ttl content metadata s) = Inl err \<and>
           localStorage_drafts (snd (createDraft S e ttl content metadata s)) =
             localStorage_drafts s"
proof -
  obtain r s' where c: "createDraft S e ttl content metadata s = (r, s')"
    by (cases "createDraft S e ttl content metadata s")
  have up: "upload_answer e
      \<lparr>u_content = c, u_fileName = draft_file_name (generateDraftId S (random_bytes e 2)) 1,
       u_isPublic = p, u_expirationTime = t\<rparr> \<noteq> Inr x" for c p t x
  proof
    assume "upload_answer e
      \<lparr>u_content = c, u_fileName = draft_file_name (generateDraftId S (random_bytes e 2)) 1,
       u_isPublic = p, u_expirationTime = t\<rparr> = Inr x"
    moreover have "isl (upload_answer e
      \<lparr>u_content = c, u_fileName = draft_file_name (generateDraftId S (random_bytes e 2)) 1,
       u_isPublic = p, u_expirationTime = t\<rparr>)"
      using assms by simp
    ultimately show False by simp
  qed
  have "isl r"
    using c
    by (cases "getOrDeriveDerivedKey S e s")
      (auto simp: createDraft_def Let_def up split: if_splits sum.splits)
  then obtain err where "r = Inl err" by (cases r) auto
  with c createDraft_error_keeps_drafts [of S e ttl content metadata s err s']
  show ?thesis by simp
qed

theorem createDraft_upload_failure_aborts_witness:
  "fst (createDraft model_sodium offline_env ''T2'' ''hello''
               \<lparr>cm_abstract = None, cm_authors = None, cm_keywords = None, cm_citations = None\<rparr>
               alice_state) = Inl (Error ''Upload failed'') \<and>
   localStorage_drafts (snd (createDraft model_sodium offline_env ''T2'' ''hello''
               \<lparr>cm_abstract = None, cm_authors = None, cm_keywords = None, cm_citations = None\<rparr>
               alice_state)) = [alice_draft]"
proof -
  have "fst (createDraft model_sodium offline_env ''T2'' ''hello''
               \<lparr>cm_abstract = None, cm_authors = None, cm_keywords = None, cm_citations = None\<rparr>
               alice_state) = Inl (Error ''Upload failed'')"
    by (simp add: createDraft_def offline_env_def model_simps(1-3) model_easy_def op_simps)
  moreover have "localStorage_drafts alice_state = [alice_draft]"
    by (simp add: alice_state_def)
  ultimately show ?thesis
    using createDraft_upload_failure_aborts [of model_sodium offline_env "''T2''" "''hello''"
      "\<lparr>cm_abstract = None, cm_authors = None, cm_keywords = None, cm_citations = None\<rparr>"
      alice_state]
    by (simp add: offline_env_def model_env_def)
qed

subsection \<open>Saving a version, importing a link\<close>

lemma getDraft_draftId: "getDraft did ds = Some d \<Longrightarrow> draftId d = did"
  by (auto simp: getDraft_def find_Some_iff)








text \<open>
  C6. With a wallet connected and no local draft of that id: when the index lists no
  finished invitation file for this wallet and draft, \<open>processSecureShareLink\<close> answers
  failure with the not-invited message and changes nothing, whatever key the link carried.
\<close>

theorem share_link_requires_invitation:
  assumes "connectedAddress s = Some wallet" and "wallet \<noteq> []"
    and "getDraft did (localStorage_drafts s) = None"
    and "\<forall>action \<in> set (all_actions e 0). \<not> is_invitation_for wallet did action"
  shows "processSecureShareLink S e did documentKeyBase64 s =
           (Inr \<lparr>sr_success = False, sr_message = NOT_INVITED\<rparr>, s)"
proof -
  have "find (is_invitation_for wallet did) (all_actions e 0) = None"
    using assms(4) by (simp add: find_None_iff)
  then have "\<not> verifyInvitationOnCascade e did wallet"
    by (simp add: verifyInvitationOnCascade_def)
  then show ?thesis
    using assms(1-3) by (simp add: processSecureShareLink_def truthy_def)
qed

theorem share_link_requires_invitation_witness:
  "processSecureShareLink model_sodium model_env ''d1'' (model_to_base64 (replicate 32 1))
     (bob_state []) =
     (Inr \<lparr>sr_success = False, sr_message = NOT_INVITED\<rparr>, bob_state [])"
  using share_link_requires_invitation [of "bob_state []" "''bob''" "''d1''" model_env
      model_sodium "model_to_base64 (replicate 32 1)"]
  by (simp add: bob_state_def alice_state_def model_env_def getDraft_def)

subsection \<open>Inviting a collaborator\<close>

text \<open>
  C7. A successful \<open>addCollaborator\<close>: the collaborator appended to the stored draft has the
  key share with empty \<open>encryptedKey\<close> and \<open>nonce\<close>; the only file the call can add to the
  blob store is the invitation for that wallet and draft, and it carries that same share.
\<close>

theorem addCollaborator_placeholder_share:
  assumes "addCollaborator S e did collaboratorWallet collaboratorName s = (Inr r, s')"
  shows "c_keyShare (ac_collaborator r) =
           \<lparr>ks_wallet = collaboratorWallet, ks_encryptedKey = [], ks_nonce = []\<rparr> \<and>
         (\<exists>d. getDraft did (localStorage_drafts s) = Some d \<and>
              getDraft did (localStorage_drafts s') =
                Some (d\<lparr>collaborators := collaborators d @ [ac_collaborator r],
                        status := Shared, updatedAt := clock e 1\<rparr>)) \<and>
         (case ac_invitationId r of
            None \<Rightarrow> cascade_files s' = cascade_files s
          | Some invitationId \<Rightarrow>
              (\<exists>request invitation.
                 cascade_files s' = cascade_files s @ [request] \<and>
                 u_content request = InvitationFile invitation \<and>
                 u_fileName request = invitation_file_name collaboratorWallet did \<and>
                 i_invitedWallet invitation = collaboratorWallet \<and>
                 i_keyShare invitation = c_keyShare (ac_collaborator r)))"
proof -
  from assms obtain d where d: "getDraft did (localStorage_drafts s) = Some d"
    by (auto simp: addCollaborator_def split: option.splits)
  have id: "draftId d = did" using d by (rule getDraft_draftId)
  obtain k s1 where g: "getDocumentKey S e d s = (k, s1)"
    by (cases "getDocumentKey S e d s")
  note keep = getDocumentKey_keeps [OF g]
  from assms d g have 1: "c_keyShare (ac_collaborator r) =
           \<lparr>ks_wallet = collaboratorWallet, ks_encryptedKey = [], ks_nonce = []\<rparr>"
    by (auto simp: addCollaborator_def Let_def split: if_splits sum.splits prod.splits)
  from assms d g keep id have 2: "getDraft did (localStorage_drafts s') =
                Some (d\<lparr>collaborators := collaborators d @ [ac_collaborator r],
                        status := Shared, updatedAt := clock e 1\<rparr>)"
    by (auto simp: addCollaborator_def uploadCollaborationInvitation_def Let_def
        getDraft_saveDraft split: if_splits sum.splits prod.splits)
  from assms d g keep id have 3: "case ac_invitationId r of
            None \<Rightarrow> cascade_files s' = cascade_files s
          | Some invitationId \<Rightarrow>
              (\<exists>request invitation.
                 cascade_files s' = cascade_files s @ [request] \<and>
                 u_content request = InvitationFile invitation \<and>
                 u_fileName request = invitation_file_name collaboratorWallet did \<and>
                 i_invitedWallet invitation = collaboratorWallet \<and>
                 i_keyShare invitation = c_keyShare (ac_collaborator r))"
    by (auto simp: addCollaborator_def uploadCollaborationInvitation_def Let_def
        split: if_splits sum.splits prod.splits)
  show ?thesis using 1 2 3 d by blast
qed

theorem addCollaborator_placeholder_share_witness:
  "map_option (map c_keyShare)
     (map_option collaborators (getDraft ''d1'' (localStorage_drafts (snd (addCollaborator
        model_sodium model_env ''d1'' ''bob'' ''Bob'' alice_state))))) =
     Some [\<lparr>ks_wallet = ''bob'', ks_encryptedKey = [], ks_nonce = []\<rparr>] \<and>
   map u_fileName (cascade_files (snd (addCollaborator model_sodium model_env ''d1'' ''bob''
        ''Bob'' alice_state))) = [''invitation_bob_d1.json'']"
proof -
  let ?r = "addCollaborator model_sodium model_env ''d1'' ''bob'' ''Bob'' alice_state"
  have "fst ?r =
      Inr \<lparr>ac_collaborator =
             \<lparr>c_wallet = ''bob'', c_name = ''Bob'',
              c_keyShare = \<lparr>ks_wallet = ''bob'', ks_encryptedKey = [], ks_nonce = []\<rparr>,
              c_addedAt = 1000, c_addedBy = ''alice'',
              c_documentKeyBase64 = Some (model_to_base64 (replicate 32 1))\<rparr>,
           ac_invitationId = Some [],
           ac_documentKeyBase64 = model_to_base64 (replicate 32 1)\<rparr>"
    by (simp add: addCollaborator_def uploadCollaborationInvitation_def model_simps op_simps
        saveDraft_def)
  then have r: "?r = (Inr \<lparr>ac_collaborator =
             \<lparr>c_wallet = ''bob'', c_name = ''Bob'',
              c_keyShare = \<lparr>ks_wallet = ''bob'', ks_encryptedKey = [], ks_nonce = []\<rparr>,
              c_addedAt = 1000, c_addedBy = ''alice'',
              c_documentKeyBase64 = Some (model_to_base64 (replicate 32 1))\<rparr>,
           ac_invitationId = Some [],
           ac_documentKeyBase64 = model_to_base64 (replicate 32 1)\<rparr>, snd ?r)" by (metis prod.collapse)
  have c: "cascade_files alice_state = []" "collaborators alice_draft = []"
    "getDraft ''d1'' (localStorage_drafts alice_state) = Some alice_draft"
    by (simp_all add: alice_state_def alice_draft_def getDraft_def)
  from addCollaborator_placeholder_share [OF r] c show ?thesis
    by (auto simp: invitation_file_name_def)
qed

subsection \<open>Merging versions\<close>

lemma add_missing_extends:
  "\<exists>extra. add_missing local fs = local @ extra \<and> set extra \<subseteq> synced ` set fs"
proof (induction fs arbitrary: local)
  case Nil
  then show ?case by simp
next
  case (Cons v fs)
  show ?case
  proof (cases "list_ex (\<lambda>lv. v_version lv = cv_version v) local")
    case True
    with Cons [of local] show ?thesis by auto
  next
    case False
    from Cons [of "local @ [synced v]"] obtain extra where
      "add_missing (local @ [synced v]) fs = (local @ [synced v]) @ extra"
      "set extra \<subseteq> synced ` set fs" by blast
    with False show ?thesis by (intro exI [of _ "synced v # extra"]) auto
  qed
qed

lemma add_missing_numbers:
  "v_version ` set (add_missing local fs) = v_version ` set local \<union> cv_version ` set fs"
proof (induction fs arbitrary: local)
  case Nil
  then show ?case by simp
next
  case (Cons v fs)
  show ?case
  proof (cases "list_ex (\<lambda>lv. v_version lv = cv_version v) local")
    case True
    then have "cv_version v \<in> v_version ` set local" by (force simp: list_ex_iff)
    with True Cons [of local] show ?thesis by auto
  next
    case False
    with Cons [of "local @ [synced v]"] show ?thesis by (auto simp: synced_def)
  qed
qed

lemma add_missing_once:
  "length (filter (\<lambda>lv. v_version lv = n) (add_missing local fs)) =
     (if n \<in> v_version ` set local then length (filter (\<lambda>lv. v_version lv = n) local)
      else if n \<in> cv_version ` set fs then 1 else 0)"
proof (induction fs arbitrary: local)
  case Nil
  have "filter (\<lambda>lv. v_version lv = n) local = []" if "n \<notin> v_version ` set local"
    using that by (auto simp: filter_empty_conv)
  then show ?case by auto
next
  case (Cons v fs)
  have none: "filter (\<lambda>lv. v_version lv = n) local = []" if "n \<notin> v_version ` set local"
    using that by (auto simp: filter_empty_conv)
  show ?case
  proof (cases "list_ex (\<lambda>lv. v_version lv = cv_version v) local")
    case True
    then have "cv_version v \<in> v_version ` set local" by (force simp: list_ex_iff)
    with True Cons [of local] show ?thesis by auto
  next
    case False
    then have notin: "cv_version v \<notin> v_version ` set local" by (auto simp: list_ex_iff)
    show ?thesis
    proof (cases "cv_version v = n")
      case True
      with False notin none Cons [of "local @ [synced v]"] show ?thesis
        by (auto simp: synced_def)
    next
      case neq: False
      with False notin none Cons [of "local @ [synced v]"] show ?thesis
        by (auto simp: synced_def)
    qed
  qed
qed

lemma last_sorted_Max:
  "xs \<noteq> [] \<Longrightarrow> sorted (map f xs) \<Longrightarrow> f (last xs) = Max (f ` set xs)"
proof (induction xs)
  case Nil
  then show ?case by simp
next
  case (Cons x xs)
  show ?case
  proof (cases "xs = []")
    case True
    then show ?thesis by simp
  next
    case False
    with Cons have ih: "f (last xs) = Max (f ` set xs)" by simp
    from Cons.prems(2) have "\<forall>y \<in> set xs. f x \<le> f y" by simp
    then have "f x \<le> Max (f ` set xs)" using False
      by (metis ih last_in_set)
    with ih False show ?thesis by (simp add: max_absorb2)
  qed
qed


lemma filter_sort_key_length:
  "length (filter P (sort_key f xs)) = length (filter P xs)"
proof -
  have "mset (filter P (sort_key f xs)) = mset (filter P xs)" by simp
  then show ?thesis by (metis size_mset)
qed

lemma merged_versions_add_missing:
  "merged_versions local fs (sort_key v_version (add_missing local fs))"
proof -
  obtain extra where ex: "add_missing local fs = local @ extra" "set extra \<subseteq> synced ` set fs"
    using add_missing_extends by blast
  have 1: "\<forall>f \<in> set fs. cv_version f \<in> v_version ` set (sort_key v_version (add_missing local fs))"
    using add_missing_numbers [of local fs] by auto
  have 2: "\<forall>n. n \<notin> v_version ` set local \<longrightarrow> n \<in> cv_version ` set fs \<longrightarrow>
      length (filter (\<lambda>lv. v_version lv = n) (sort_key v_version (add_missing local fs))) = 1"
    by (simp add: filter_sort_key_length add_missing_once)
  have 3: "mset local \<subseteq># mset (sort_key v_version (add_missing local fs))"
    by (simp add: ex(1))
  have 4: "set (sort_key v_version (add_missing local fs)) \<subseteq> set local \<union> synced ` set fs"
    using ex by auto
  have 5: "sorted (map v_version (sort_key v_version (add_missing local fs)))"
    by (rule sorted_sort_key)
  show ?thesis unfolding merged_versions_def using 1 2 3 4 5 by blast
qed

lemma merged_versions_set:
  "set fs = set fs' \<Longrightarrow> merged_versions local fs r = merged_versions local fs' r"
  by (simp add: merged_versions_def)

lemma sync_from_cascade_newer:
  assumes "fs \<noteq> []" and "sorted (map cv_version fs)"
    and "local_latest (versions d) < Max (cv_version ` set fs)"
  shows "sync_from_cascade now fs d =
     Some (d\<lparr>versions := sort_key v_version (add_missing (versions d) fs), updatedAt := now\<rparr>)"
  using assms last_sorted_Max [of fs cv_version]
  by (simp add: sync_from_cascade_def Let_def)

lemma sync_from_cascade_not_newer:
  assumes "fs \<noteq> []" and "sorted (map cv_version fs)"
    and "Max (cv_version ` set fs) \<le> local_latest (versions d)"
  shows "sync_from_cascade now fs d = None"
proof -
  have "cv_version (last fs) = Max (cv_version ` set fs)"
    using assms(1,2) by (rule last_sorted_Max)
  with assms(3) have "\<not> local_latest (versions d) < cv_version (last fs)" by linarith
  then show ?thesis by (simp add: sync_from_cascade_def Let_def)
qed

lemma sync_from_cascade_again:
  assumes "fs \<noteq> []" and "sorted (map cv_version fs)"
    and "sync_from_cascade now fs d = Some d'"
  shows "sync_from_cascade now' fs d' = None"
proof -
  let ?vs = "sort_key v_version (add_missing (versions d) fs)"
  from assms(3) have d': "versions d' = ?vs"
    by (auto simp: sync_from_cascade_def Let_def split: if_splits)
  have sub: "cv_version ` set fs \<subseteq> v_version ` set ?vs"
    using add_missing_numbers [of "versions d" fs] by auto
  with assms(1) have "add_missing (versions d) fs \<noteq> []" by auto
  then have ne: "?vs \<noteq> []" by (metis length_0_conv length_sort)
  have "v_version (last ?vs) = Max (v_version ` set ?vs)"
    using ne by (intro last_sorted_Max) (simp_all add: sorted_sort_key)
  moreover have "Max (cv_version ` set fs) \<le> Max (v_version ` set ?vs)"
    using sub assms(1) by (intro Max_mono) auto
  ultimately have "Max (cv_version ` set fs) \<le> local_latest (versions d')"
    using ne by (simp add: local_latest_def d')
  then show ?thesis using assms(1,2) by (rule sync_from_cascade_not_newer [rotated 2])
qed

lemma sync_from_cascade_idem:
  assumes "fs \<noteq> []" and "sorted (map cv_version fs)"
  shows "merged (sync_from_cascade now' fs (merged (sync_from_cascade now fs d) d))
           (merged (sync_from_cascade now fs d) d) = merged (sync_from_cascade now fs d) d"
proof (cases "sync_from_cascade now fs d")
  case None
  then have "sync_from_cascade now' fs d = None"
    by (auto simp: sync_from_cascade_def Let_def split: if_splits)
  with None show ?thesis by (simp add: merged_def)
next
  case (Some d')
  with sync_from_cascade_again [OF assms Some, of now'] show ?thesis
    by (simp add: merged_def)
qed

text \<open>
  C2 as stated fails. Bob imported \<open>d1\<close> at version 2; the index lists versions 1 and 2.
  Version 1 is found and is not in the local array, yet neither merge adds it, because the
  newest found version is not newer than the last local one; \<open>fetchInvitedDrafts\<close> leaves
  the stored draft with version 2 alone.
\<close>

theorem sync_skips_older_version:
  "1 \<in> set (map cv_version [found_1, found_2]) \<and>
   1 \<notin> set (map v_version (versions imported_draft)) \<and>
   map v_version (versions (merged (syncUserDraft 9 [found_1, found_2] imported_draft)
                              imported_draft)) = [2] \<and>
   map v_version (versions (merged (syncInvitedDraft 9 [found_1, found_2] imported_draft)
                              imported_draft)) = [2] \<and>
   map (map v_version) (map versions (localStorage_drafts
      (snd (fetchInvitedDrafts indexed_env ''bob'' (bob_state [imported_draft]))))) = [[2]]"
proof -
  have u: "syncUserDraft 9 [found_1, found_2] imported_draft = None"
    by (simp add: syncUserDraft_def sync_from_cascade_def local_latest_def imported_draft_def
        found_1_def found_2_def)
  have i: "syncInvitedDraft now
       [\<lparr>cv_version = 1, cv_actionId = ''a1'', cv_createdAt = t, cv_createdBy = ''alice''\<rparr>,
        \<lparr>cv_version = 2, cv_actionId = ''a2'', cv_createdAt = t, cv_createdBy = ''alice''\<rparr>]
       imported_draft = None" for now t
    by (simp add: syncInvitedDraft_def sync_from_cascade_def local_latest_def imported_draft_def)
  have f: "invited_found indexed_env index_actions ''d1'' =
       [\<lparr>cv_version = 1, cv_actionId = ''a1'', cv_createdAt = 1000, cv_createdBy = ''alice''\<rparr>,
        \<lparr>cv_version = 2, cv_actionId = ''a2'', cv_createdAt = 1000, cv_createdBy = ''alice''\<rparr>]"
    by (simp add: invited_found_def index_actions_def indexed_env_def model_env_def
        model_regex_match_def file_name_of_def found_version_def List.map_filter_simps)
  have s: "localStorage_drafts (snd (fetchInvitedDrafts indexed_env ''bob''
             (bob_state [imported_draft]))) = [imported_draft]"
  proof -
    have 1: "localStorage_drafts (bob_state [imported_draft]) = [imported_draft]"
      by (simp add: bob_state_def alice_state_def)
    have 2: "owner imported_draft \<noteq> ''bob''" "draftId imported_draft = ''d1''"
      "list_ex (\<lambda>c. c_wallet c = ''bob'') (collaborators imported_draft)"
      by (simp_all add: imported_draft_def placeholder_bob_def)
    have 3: "all_actions indexed_env 0 = index_actions"
      by (simp add: indexed_env_def model_env_def)
    show ?thesis
      by (simp add: fetchInvitedDrafts_def 1 2 3 f i Let_def)
  qed
  show ?thesis
    using u i [of 9 9] s
    by (simp add: merged_def found_1_def found_2_def imported_draft_def)
qed

text \<open>
  C2, amended. For a non-empty set of found versions: when the highest found number is
  greater than the number of the last local version (0 for none), the merge of
  \<open>fetchUserDrafts\<close> saves the draft with only \<open>versions\<close> and \<open>updatedAt\<close> changed and the
  versions merged (every found number present, a missing one added exactly once as the
  record made from a found version, every local record kept, sorted ascending); otherwise it
  saves nothing. The merge of \<open>fetchInvitedDrafts\<close> does the same with the found versions of
  positive number, and nothing if there is none. Merging again leaves the draft as the
  first merge left it.
\<close>

theorem sync_adds_missing_when_newer:
  assumes "found \<noteq> []"
  shows "(local_latest (versions d) < Max (cv_version ` set found) \<longrightarrow>
            (\<exists>vs. syncUserDraft now found d = Some (d\<lparr>versions := vs, updatedAt := now\<rparr>) \<and>
                  merged_versions (versions d) found vs)) \<and>
         (Max (cv_version ` set found) \<le> local_latest (versions d) \<longrightarrow>
            syncUserDraft now found d = None) \<and>
         merged (syncUserDraft now' found (merged (syncUserDraft now found d) d))
           (merged (syncUserDraft now found d) d) = merged (syncUserDraft now found d) d \<and>
         (positive_versions found \<noteq> [] \<longrightarrow>
            local_latest (versions d) < Max (cv_version ` set (positive_versions found)) \<longrightarrow>
            (\<exists>vs. syncInvitedDraft now found d = Some (d\<lparr>versions := vs, updatedAt := now\<rparr>) \<and>
                  merged_versions (versions d) (positive_versions found) vs)) \<and>
         (positive_versions found = [] \<or>
          Max (cv_version ` set (positive_versions found)) \<le> local_latest (versions d) \<longrightarrow>
            syncInvitedDraft now found d = None) \<and>
         merged (syncInvitedDraft now' found (merged (syncInvitedDraft now found d) d))
           (merged (syncInvitedDraft now found d) d) = merged (syncInvitedDraft now found d) d"
proof -
  let ?fs = "sort_key cv_version found"
  let ?ps = "sort_key cv_version (positive_versions found)"
  have fs: "?fs \<noteq> []" "sorted (map cv_version ?fs)" "set ?fs = set found"
    using assms by (auto simp: sorted_sort_key) (metis length_0_conv length_sort)
  have ps: "sorted (map cv_version ?ps)" "set ?ps = set (positive_versions found)"
    by (auto simp: sorted_sort_key)
  have psne: "?ps \<noteq> []" if "positive_versions found \<noteq> []"
    using that by (metis length_0_conv length_sort)
  have inv: "syncInvitedDraft now found d =
      (if positive_versions found = [] then None else sync_from_cascade now ?ps d)" for now d
    by (simp add: syncInvitedDraft_def positive_versions_def Let_def)
  have U1: "\<exists>vs. syncUserDraft now found d = Some (d\<lparr>versions := vs, updatedAt := now\<rparr>) \<and>
                  merged_versions (versions d) found vs"
    if "local_latest (versions d) < Max (cv_version ` set found)"
    using sync_from_cascade_newer [OF fs(1,2), of d now] that fs(3)
      merged_versions_add_missing [of "versions d" ?fs]
      merged_versions_set [OF fs(3), of "versions d"]
    by (auto simp: syncUserDraft_def)
  have U2: "syncUserDraft now found d = None"
    if "Max (cv_version ` set found) \<le> local_latest (versions d)"
    using sync_from_cascade_not_newer [OF fs(1,2), of d now] that fs(3)
    by (simp add: syncUserDraft_def)
  have U3: "merged (syncUserDraft now' found (merged (syncUserDraft now found d) d))
           (merged (syncUserDraft now found d) d) = merged (syncUserDraft now found d) d"
    using sync_from_cascade_idem [OF fs(1,2)] by (simp add: syncUserDraft_def)
  have I1: "\<exists>vs. syncInvitedDraft now found d = Some (d\<lparr>versions := vs, updatedAt := now\<rparr>) \<and>
                  merged_versions (versions d) (positive_versions found) vs"
    if "positive_versions found \<noteq> []"
      "local_latest (versions d) < Max (cv_version ` set (positive_versions found))"
    using sync_from_cascade_newer [OF psne [OF that(1)] ps(1), of d now] that ps(2)
      merged_versions_add_missing [of "versions d" ?ps]
      merged_versions_set [OF ps(2), of "versions d"]
    by (auto simp: inv)
  have I2: "syncInvitedDraft now found d = None"
    if "positive_versions found = [] \<or>
          Max (cv_version ` set (positive_versions found)) \<le> local_latest (versions d)"
  proof (cases "positive_versions found = []")
    case True
    then show ?thesis by (simp add: inv)
  next
    case False
    with that sync_from_cascade_not_newer [OF psne [OF False] ps(1), of d now] ps(2)
    show ?thesis by (simp add: inv)
  qed
  have I3: "merged (syncInvitedDraft now' found (merged (syncInvitedDraft now found d) d))
           (merged (syncInvitedDraft now found d) d) = merged (syncInvitedDraft now found d) d"
  proof (cases "positive_versions found = []")
    case True
    then show ?thesis by (simp add: inv merged_def)
  next
    case False
    with sync_from_cascade_idem [OF psne [OF False] ps(1)] show ?thesis by (simp add: inv)
  qed
  show ?thesis using U1 U2 U3 I1 I2 I3 by blast
qed

theorem sync_adds_missing_when_newer_witness:
  "(\<exists>vs. syncUserDraft 9 [found_3, found_2] alice_draft =
           Some (alice_draft\<lparr>versions := vs, updatedAt := 9\<rparr>)) \<and>
   syncUserDraft 9 [found_2] imported_draft = None"
proof -
  have a: "local_latest (versions alice_draft) < Max (cv_version ` set [found_3, found_2])"
    by (simp add: local_latest_def alice_draft_def version_1_def found_3_def found_2_def)
  have b: "Max (cv_version ` set [found_2]) \<le> local_latest (versions imported_draft)"
    by (simp add: local_latest_def imported_draft_def found_2_def)
  from sync_adds_missing_when_newer [of "[found_3, found_2]" alice_draft 9] a
    sync_adds_missing_when_newer [of "[found_2]" imported_draft 9] b
  show ?thesis by blast
qed

subsection \<open>What each operation does to the stored drafts\<close>

lemma status_saveDraft:
  "map_option status (getDraft did (saveDraft d ds)) =
     (if draftId d = did then Some (status d) else map_option status (getDraft did ds))"
  by (simp add: getDraft_saveDraft)



























end
